theory Spec2Isabelle
  imports Main "HOL-Library.Multiset"
begin

section \<open>JavaScript values as the dashboard code handles them\<close>

text \<open>
  The browser app (assets/main.js) works on the JSON payloads of the helpdesk API. A
  value is modelled as a JSON tree extended with \<open>undefined\<close>, which is what reading an
  absent property gives. Numbers are the integers (identifiers and counters); strings
  are byte strings in UTF-8; an object is the list of its members, the first binding of
  a key being the one a property read finds.
\<close>

datatype json =
    JUndefined
  | JNull
  | JBool bool
  | JNum int
  | JStr string
  | JArr "json list"
  | JObj "(string \<times> json) list"

text \<open>Truthiness, as \<open>if (v)\<close>, \<open>v && w\<close> and \<open>v || w\<close> test it: an empty array and an
  empty object are truthy, the empty string and zero are not.\<close>

fun truthy :: "json \<Rightarrow> bool" where
  "truthy JUndefined = False"
| "truthy JNull = False"
| "truthy (JBool b) = b"
| "truthy (JNum n) = (n \<noteq> 0)"
| "truthy (JStr s) = (s \<noteq> [])"
| "truthy (JArr xs) = True"
| "truthy (JObj kvs) = True"

text \<open>Reading a property of \<open>null\<close> or \<open>undefined\<close> throws a TypeError.\<close>

fun nullish :: "json \<Rightarrow> bool" where
  "nullish JUndefined = True"
| "nullish JNull = True"
| "nullish v = False"

text \<open>\<open>v.k\<close> and \<open>v[k]\<close> for a value that is not nullish: the member of an object, and
  \<open>undefined\<close> when the object has no such member or the value is a primitive or an
  array (none of the property names the app reads is a built-in of those).\<close>

fun js_get :: "json \<Rightarrow> string \<Rightarrow> json" where
  "js_get (JObj kvs) k = (case map_of kvs k of None \<Rightarrow> JUndefined | Some v \<Rightarrow> v)"
| "js_get v k = JUndefined"

text \<open>\<open>a || b\<close>.\<close>

definition js_or :: "json \<Rightarrow> json \<Rightarrow> json" where
  "js_or a b = (if truthy a then a else b)"

text \<open>\<open>xs.concat(v)\<close>: the elements of an array argument are appended, any other
  argument is appended as one element.\<close>

fun js_concat :: "json list \<Rightarrow> json \<Rightarrow> json list" where
  "js_concat xs (JArr ys) = xs @ ys"
| "js_concat xs v = xs @ [v]"

text \<open>Decimal digits of a natural number and of an integer.\<close>

fun show_nat :: "nat \<Rightarrow> string" where
  "show_nat n =
     (if n < 10 then [''0123456789'' ! n]
      else show_nat (n div 10) @ [''0123456789'' ! (n mod 10)])"

definition show_int :: "int \<Rightarrow> string" where
  "show_int i = (if i < 0 then CHR ''-'' # show_nat (nat (- i)) else show_nat (nat i))"

text \<open>\<open>ys.join(sep)\<close> on strings.\<close>

fun join_with :: "string \<Rightarrow> string list \<Rightarrow> string" where
  "join_with sep [] = []"
| "join_with sep [s] = s"
| "join_with sep (s # t # ss) = s @ sep @ join_with sep (t # ss)"

text \<open>The string a template literal \<open>`${v}`\<close> interpolates: an array is its elements
  joined by commas, \<open>null\<close> and \<open>undefined\<close> elements giving the empty string. A number
  prints in decimal, which is what JavaScript prints for an integer of magnitude below
  \<open>10^21\<close>; larger ones, which it prints with an exponent, and fractions are outside
  the model. Only the text of fallback labels and of endpoints depends on it.\<close>

fun js_to_string :: "json \<Rightarrow> string" where
  "js_to_string JUndefined = ''undefined''"
| "js_to_string JNull = ''null''"
| "js_to_string (JBool b) = (if b then ''true'' else ''false'')"
| "js_to_string (JNum n) = show_int n"
| "js_to_string (JStr s) = s"
| "js_to_string (JArr xs) =
     join_with '','' (map (\<lambda>x. if nullish x then [] else js_to_string x) xs)"
| "js_to_string (JObj kvs) = ''[object Object]''"

section \<open>The API client\<close>

text \<open>
  \<open>client.request(arg)\<close> is the app's only channel to the remote instance. The world
  holds the answers the remote will give to the coming requests, in order (\<open>None\<close> is a
  rejected promise: a network failure or an error status), and the arguments of the
  requests made so far. A request made when no answer is left is never answered: the
  awaiting function does not return, which is the value \<open>None\<close> of the functions below.
\<close>

record world =
  pending :: "json option list"
  sent :: "json list"

definition client_request :: "json \<Rightarrow> world \<Rightarrow> (json option \<times> world) option" where
  "client_request arg w =
     (case pending w of
        [] \<Rightarrow> None
      | r # rs \<Rightarrow> Some (r, \<lparr>pending = rs, sent = sent w @ [arg]\<rparr>))"

section \<open>Paginated reads\<close>

text \<open>The records one page contributes: \<open>response[dataKey]\<close> when that is truthy,
  appended with \<open>concat\<close>.\<close>

definition page_items :: "string \<Rightarrow> json \<Rightarrow> json list" where
  "page_items dataKey response =
     (if truthy (js_get response dataKey) then js_concat [] (js_get response dataKey) else [])"

text \<open>The endpoint the loop continues with after a page: the cursor link when the page
  says there is more, else the offset pagination's \<open>next_page\<close>, else \<open>null\<close>.\<close>

definition next_endpoint :: "json \<Rightarrow> json" where
  "next_endpoint response =
     (if truthy (js_get response ''meta'') \<and> truthy (js_get (js_get response ''meta'') ''has_more'')
         \<and> truthy (js_get response ''links'') \<and> truthy (js_get (js_get response ''links'') ''next'')
      then js_get (js_get response ''links'') ''next''
      else if truthy (js_get response ''next_page'') then js_get response ''next_page''
      else JNull)"

text \<open>
  The loop of \<open>fetchAllPages\<close>. Its \<open>try\<close> block can throw in two places: the request
  is rejected, or the response is nullish and \<open>response[dataKey]\<close> is a TypeError; both
  happen before \<open>allRecords\<close> is touched. The \<open>catch\<close> logs the error and sets
  \<open>currentEndpoint = null\<close>, which ends the loop. The progress callback only rewrites the
  loader's text and is left out.
\<close>

function fetchAllPages_loop ::
  "string \<Rightarrow> json \<Rightarrow> json list \<Rightarrow> world \<Rightarrow> (json list \<times> world) option" where
  "fetchAllPages_loop dataKey currentEndpoint allRecords w =
     (if \<not> truthy currentEndpoint then Some (allRecords, w)
      else
        (case client_request currentEndpoint w of
           None \<Rightarrow> None
         | Some (None, w') \<Rightarrow> Some (allRecords, w')
         | Some (Some response, w') \<Rightarrow>
             if nullish response then Some (allRecords, w')
             else fetchAllPages_loop dataKey (next_endpoint response)
                    (allRecords @ page_items dataKey response) w'))"
  by pat_completeness auto
termination
  by (relation "measure (\<lambda>(k, e, acc, w). length (pending w))")
     (auto simp: client_request_def split: list.splits)

declare fetchAllPages_loop.simps [simp del]

definition fetchAllPages :: "json \<Rightarrow> string \<Rightarrow> world \<Rightarrow> (json list \<times> world) option" where
  "fetchAllPages initialEndpoint dataKey w = fetchAllPages_loop dataKey initialEndpoint [] w"

text \<open>A run of pages that all arrive: every page but the last advertises a next page,
  the last one does not, and none is a nullish body.\<close>

fun page_chain :: "json list \<Rightarrow> bool" where
  "page_chain [] = False"
| "page_chain [p] = (\<not> nullish p \<and> \<not> truthy (next_endpoint p))"
| "page_chain (p # q # ps) = (\<not> nullish p \<and> truthy (next_endpoint p) \<and> page_chain (q # ps))"

section \<open>Server-side search and record names\<close>

text \<open>\<open>s.startsWith(p)\<close> and \<open>s.replace(p, r)\<close> with a string pattern, which replaces the
  first occurrence only.\<close>

definition js_startsWith :: "string \<Rightarrow> string \<Rightarrow> bool" where
  "js_startsWith s p = (take (length p) s = p)"

fun js_replace :: "string \<Rightarrow> string \<Rightarrow> string \<Rightarrow> string" where
  "js_replace [] p r = (if p = [] then r else [])"
| "js_replace (c # cs) p r =
     (if take (length p) (c # cs) = p then r @ drop (length p) (c # cs)
      else c # js_replace cs p r)"

text \<open>\<open>encodeURIComponent\<close> on a UTF-8 byte string: letters, digits and
  \<open>- _ . ! ~ * ' ( )\<close> stay, every other byte becomes \<open>%XX\<close>.\<close>

definition uri_unreserved :: "char \<Rightarrow> bool" where
  "uri_unreserved c =
     (c \<in> set ''ABCDEFGHIJKLMNOPQRSTUVWXYZabcdefghijklmnopqrstuvwxyz0123456789-_.!~*()''
      \<or> c = CHR 0x27)"

definition hex_digit :: "nat \<Rightarrow> char" where
  "hex_digit n = ''0123456789ABCDEF'' ! n"

definition encodeURIComponent :: "string \<Rightarrow> string" where
  "encodeURIComponent s =
     concat (map (\<lambda>c. if uri_unreserved c then [c]
                       else [CHR ''%'', hex_digit (of_char c div 16), hex_digit (of_char c mod 16)]) s)"

text \<open>The endpoint, the response's data key and the label field that
  \<open>searchLookupData\<close> picks for a target type; \<open>None\<close> is its final \<open>else\<close>. The
  target type and the query are strings, as at the call site: the
  \<open>relationship_target_type\<close> of a lookup field and the text typed into its selector.
  For a target type that is not a string, and for a query with a lone surrogate, the
  function throws before its \<open>try\<close> block and makes no request; those calls are
  outside this function's model.\<close>

definition search_route :: "string \<Rightarrow> string \<Rightarrow> (string \<times> string \<times> string) option" where
  "search_route targetType query =
     (if js_startsWith targetType ''zen:custom_object:'' then
        Some (''/api/v2/custom_objects/'' @ js_replace targetType ''zen:custom_object:'' []
                @ ''/records/autocomplete?name='' @ encodeURIComponent query,
              ''custom_object_records'', ''name'')
      else if targetType = ''zen:user'' then
        Some (''/api/v2/users/autocomplete.json?name='' @ encodeURIComponent query,
              ''users'', ''name'')
      else if targetType = ''zen:ticket'' then
        Some (''/api/v2/search.json?query=type:ticket '' @ encodeURIComponent query,
              ''results'', ''subject'')
      else if targetType = ''zen:organization'' then
        Some (''/api/v2/organizations/autocomplete.json?name='' @ encodeURIComponent query,
              ''organizations'', ''name'')
      else None)"

text \<open>The filter callback of \<open>searchLookupData\<close>, on a record that is not nullish.\<close>

definition lookup_visible :: "json \<Rightarrow> bool" where
  "lookup_visible record =
     (if js_get record ''suspended'' = JBool True then False
      else if js_get record ''active'' = JBool False then False
      else if truthy (js_get record ''custom_object_fields'')
              \<and> js_get (js_get record ''custom_object_fields'') ''active'' = JBool False then False
      else True)"

text \<open>\<open>record[labelField] || record.title || `Record ${record.id}`\<close>.\<close>

definition record_label :: "string \<Rightarrow> json \<Rightarrow> json" where
  "record_label labelField record =
     js_or (js_get record labelField)
       (js_or (js_get record ''title'') (JStr (''Record '' @ js_to_string (js_get record ''id''))))"

definition lookup_entry :: "string \<Rightarrow> json \<Rightarrow> json" where
  "lookup_entry labelField record =
     JObj [(''id'', js_or (js_get record ''id'') (js_get record ''external_id'')),
           (''label'', record_label labelField record)]"

text \<open>What the \<open>try\<close> block of \<open>searchLookupData\<close> computes from a response. It throws a
  TypeError, which the \<open>catch\<close> turns into \<open>[]\<close>, when the response is nullish, when
  \<open>response[dataKey] || []\<close> is not an array (it has no \<open>filter\<close>) and when an element of
  the array is nullish (the callback reads its properties).\<close>

definition search_results :: "string \<Rightarrow> string \<Rightarrow> json \<Rightarrow> json list" where
  "search_results dataKey labelField response =
     (if nullish response then []
      else
        (case js_or (js_get response dataKey) (JArr []) of
           JArr rawRecords \<Rightarrow>
             if list_ex nullish rawRecords then []
             else map (lookup_entry labelField) (filter lookup_visible rawRecords)
         | _ \<Rightarrow> []))"

definition searchLookupData :: "string \<Rightarrow> string \<Rightarrow> world \<Rightarrow> (json list \<times> world) option" where
  "searchLookupData targetType query w =
     (case search_route targetType query of
        None \<Rightarrow> Some ([], w)
      | Some (endpoint, dataKey, labelField) \<Rightarrow>
          (case client_request (JStr endpoint) w of
             None \<Rightarrow> None
           | Some (None, w') \<Rightarrow> Some ([], w')
           | Some (Some response, w') \<Rightarrow> Some (search_results dataKey labelField response, w')))"



text \<open>\<open>`Record ${id}`\<close>, the value of the final \<open>else\<close> and of the \<open>catch\<close>.\<close>

definition fallback_name :: "json \<Rightarrow> json" where
  "fallback_name ident = JStr (''Record '' @ js_to_string ident)"





section \<open>The app's state, the table view and deletion\<close>

text \<open>
  The global variables of main.js that the functions below read or write, and of the
  page only what decides the control flow: which view is shown, the loader's text and
  the records fetched for the table (\<open>tableRecords\<close>; the rows the widget gets are
  built from them, one per record, with its \<open>id\<close>, its \<open>name\<close> and its custom fields).
  Column layout and the table widget are not modelled.
\<close>

datatype view = LoaderView | SelectorView | TableView | FormView

record app =
  currentCoKey :: json
  currentCoTitle :: json
  currentSchema :: json
  cachedLookupFields :: "json list option"
  activeView :: view
  loaderText :: string
  tableRecords :: "json list"

text \<open>Building the table throws a TypeError, caught by \<open>loadTable\<close>, when a record is
  nullish (\<open>record.id\<close>), when the schema is not an array (\<open>currentSchema.forEach\<close>) or
  when one of its fields is nullish (\<open>field.title\<close>).\<close>

definition table_renders :: "json \<Rightarrow> json list \<Rightarrow> bool" where
  "table_renders schema records =
     (\<not> list_ex nullish records \<and>
      (case schema of JArr fs \<Rightarrow> \<not> list_ex nullish fs | _ \<Rightarrow> False))"

definition loadTable :: "json \<Rightarrow> app \<Rightarrow> world \<Rightarrow> (app \<times> world) option" where
  "loadTable coKey a w =
     (let a1 = a\<lparr>loaderText := ''Loading schema...'', activeView := LoaderView\<rparr> in
      case client_request (JStr (''/api/v2/custom_objects/'' @ js_to_string coKey @ ''/fields'')) w of
        None \<Rightarrow> None
      | Some (None, w1) \<Rightarrow> Some (a1\<lparr>loaderText := ''Error loading table data.''\<rparr>, w1)
      | Some (Some schemaResponse, w1) \<Rightarrow>
          if nullish schemaResponse
          then Some (a1\<lparr>loaderText := ''Error loading table data.''\<rparr>, w1)
          else
            (let a2 = a1\<lparr>currentSchema := js_get schemaResponse ''custom_object_fields''\<rparr> in
             case fetchAllPages
                    (JStr (''/api/v2/custom_objects/'' @ js_to_string coKey
                             @ ''/records?page[size]=100''))
                    ''custom_object_records'' w1 of
               None \<Rightarrow> None
             | Some (records, w2) \<Rightarrow>
                 if table_renders (currentSchema a2) records
                 then Some (a2\<lparr>loaderText := ''Rendering table...'', activeView := TableView,
                               tableRecords := records\<rparr>, w2)
                 else Some (a2\<lparr>loaderText := ''Error loading table data.''\<rparr>, w2)))"

text \<open>The argument of the DELETE call of \<open>deleteRecord\<close>.\<close>

definition delete_request :: "json \<Rightarrow> json \<Rightarrow> json" where
  "delete_request coKey recordId =
     JObj [(''url'', JStr (''/api/v2/custom_objects/'' @ js_to_string coKey @ ''/records/''
                            @ js_to_string recordId)),
           (''type'', JStr ''DELETE'')]"

text \<open>\<open>deleteRecord\<close>; \<open>confirmed\<close> is the operator's answer to the browser's
  \<open>confirm\<close> dialog. \<open>loadTable\<close> catches its own errors, so the handler's \<open>catch\<close> is
  reached only by a rejected DELETE.\<close>

definition deleteRecord :: "bool \<Rightarrow> json \<Rightarrow> app \<Rightarrow> world \<Rightarrow> (app \<times> world) option" where
  "deleteRecord confirmed recordId a w =
     (if confirmed then
        (let a1 = a\<lparr>loaderText := ''Deleting record '' @ js_to_string recordId @ ''...'',
                     activeView := LoaderView\<rparr> in
         case client_request (delete_request (currentCoKey a1) recordId) w of
           None \<Rightarrow> None
         | Some (None, w1) \<Rightarrow> Some (a1\<lparr>activeView := TableView\<rparr>, w1)
         | Some (Some response, w1) \<Rightarrow> loadTable (currentCoKey a1) a1 w1)
      else Some (a, w))"

text \<open>The assignments the click handler of the button \<open>load-co-btn\<close> makes before its
  first \<open>await\<close>: the chosen object becomes the current one and the cache is emptied.\<close>

definition select_object :: "string \<Rightarrow> string \<Rightarrow> app \<Rightarrow> app" where
  "select_object selectedKey selectedText a =
     a\<lparr>currentCoKey := JStr selectedKey, currentCoTitle := JStr selectedText,
       cachedLookupFields := None\<rparr>"

text \<open>The click handler of the button \<open>load-co-btn\<close> that \<open>renderObjectSelector\<close>
  installs; \<open>selectedKey\<close> is the value of the selector and \<open>selectedText\<close> the text of
  the chosen option.\<close>

definition load_co_btn_click :: "string \<Rightarrow> string \<Rightarrow> app \<Rightarrow> world \<Rightarrow> (app \<times> world) option" where
  "load_co_btn_click selectedKey selectedText a w =
     (if selectedKey \<noteq> [] then
        loadTable (JStr selectedKey) (select_object selectedKey selectedText a) w
      else Some (a, w))"

section \<open>Discovery of the relationship schema\<close>

text \<open>The test \<open>f.type === 'lookup' && f.relationship_target_type === target\<close>.\<close>

definition lookup_match :: "string \<Rightarrow> json \<Rightarrow> bool" where
  "lookup_match target f =
     (js_get f ''type'' = JStr ''lookup'' \<and> js_get f ''relationship_target_type'' = JStr target)"

text \<open>One \<open>forEach\<close> of \<open>getLookupFieldsForCurrentCo\<close>: the matching fields are pushed
  in order; a nullish element throws, the enclosing \<open>catch\<close> ends the traversal and what
  was pushed before stays.\<close>

fun push_lookups :: "(json \<Rightarrow> json) \<Rightarrow> string \<Rightarrow> json list \<Rightarrow> json list \<Rightarrow> json list" where
  "push_lookups entry target [] fields0 = fields0"
| "push_lookups entry target (f # fs) fields0 =
     (if nullish f then fields0
      else push_lookups entry target fs
             (if lookup_match target f then fields0 @ [entry f] else fields0))"

definition standard_entry :: "string \<Rightarrow> string \<Rightarrow> json \<Rightarrow> json" where
  "standard_entry type label f =
     JObj [(''id'', js_get f ''id''), (''title'', js_get f ''title''),
           (''type'', JStr type), (''label'', JStr label)]"

text \<open>Fields of a custom object are identified by their key.\<close>

definition custom_object_entry :: "json \<Rightarrow> json \<Rightarrow> json" where
  "custom_object_entry obj f =
     JObj [(''id'', js_get f ''key''), (''title'', js_get f ''title''),
           (''type'', JStr (''zen:custom_object:'' @ js_to_string (js_get obj ''key''))),
           (''label'', js_get obj ''title_pluralized'')]"

definition scan_category ::
  "string \<Rightarrow> string \<Rightarrow> (json \<Rightarrow> json) \<Rightarrow> string \<Rightarrow> json list \<Rightarrow> world
     \<Rightarrow> (json list \<times> world) option" where
  "scan_category endpoint dataKey entry target fields0 w =
     (case fetchAllPages (JStr endpoint) dataKey w of
        None \<Rightarrow> None
      | Some (fs, w') \<Rightarrow> Some (push_lookups entry target fs fields0, w'))"

text \<open>The endpoint of the fields of a custom object.\<close>

definition custom_object_fields_endpoint :: "json \<Rightarrow> string" where
  "custom_object_fields_endpoint obj =
     ''/api/v2/custom_objects/'' @ js_to_string (js_get obj ''key'') @ ''/fields.json''"

text \<open>The \<open>for\<close> loop over the custom objects. For a nullish \<open>obj\<close> the endpoint's
  template throws inside the inner \<open>try\<close>, the inner \<open>catch\<close> reads \<open>obj.key\<close> again
  for its warning and throws to the outer \<open>catch\<close>, which leaves the loop.\<close>

fun scan_custom_objects ::
  "string \<Rightarrow> json list \<Rightarrow> json list \<Rightarrow> world \<Rightarrow> (json list \<times> world) option" where
  "scan_custom_objects target [] fields0 w = Some (fields0, w)"
| "scan_custom_objects target (obj # objs) fields0 w =
     (if nullish obj then Some (fields0, w)
      else
        (case scan_category (custom_object_fields_endpoint obj)
                ''custom_object_fields'' (custom_object_entry obj) target fields0 w of
           None \<Rightarrow> None
         | Some (fields', w') \<Rightarrow> scan_custom_objects target objs fields' w'))"

text \<open>The scan itself: ticket, user and organization fields, then the fields of every
  custom object.\<close>

definition discovery_scan :: "string \<Rightarrow> world \<Rightarrow> (json list \<times> world) option" where
  "discovery_scan target w =
     (case scan_category ''/api/v2/ticket_fields.json'' ''ticket_fields''
             (standard_entry ''zen:ticket'' ''Tickets'') target [] w of
        None \<Rightarrow> None
      | Some (fields1, w1) \<Rightarrow>
     (case scan_category ''/api/v2/user_fields.json'' ''user_fields''
             (standard_entry ''zen:user'' ''Users'') target fields1 w1 of
        None \<Rightarrow> None
      | Some (fields2, w2) \<Rightarrow>
     (case scan_category ''/api/v2/organization_fields.json'' ''organization_fields''
             (standard_entry ''zen:organization'' ''Organizations'') target fields2 w2 of
        None \<Rightarrow> None
      | Some (fields3, w3) \<Rightarrow>
     (case fetchAllPages (JStr ''/api/v2/custom_objects.json'') ''custom_objects'' w3 of
        None \<Rightarrow> None
      | Some (customObjects, w4) \<Rightarrow> scan_custom_objects target customObjects fields3 w4))))"

text \<open>
  \<open>getLookupFieldsForCurrentCo\<close> is an async function. It reads the cache and
  \<open>currentCoKey\<close> when it is called, yields to the event loop at every \<open>await\<close> of the
  scan, and assigns the cache when the scan is over. Handlers that run while it waits
  see and change the app's variables; \<open>during\<close> is what they did to them by the time
  the scan ends (their own requests are not among this call's answers). The cache holds
  \<open>null\<close> or an array, and an array is truthy also when it is empty; a call that finds
  the cache filled returns it at once.
\<close>

definition getLookupFieldsForCurrentCo_interleaved ::
  "(app \<Rightarrow> app) \<Rightarrow> app \<Rightarrow> world \<Rightarrow> (json list \<times> app \<times> world) option" where
  "getLookupFieldsForCurrentCo_interleaved during a w =
     (case cachedLookupFields a of
        Some cached \<Rightarrow> Some (cached, a, w)
      | None \<Rightarrow>
          (case discovery_scan (''zen:custom_object:'' @ js_to_string (currentCoKey a)) w of
             None \<Rightarrow> None
           | Some (fields0, w') \<Rightarrow>
               Some (fields0, (during a)\<lparr>cachedLookupFields := Some fields0\<rparr>, w')))"

text \<open>A call of \<open>getLookupFieldsForCurrentCo\<close> during which no other handler runs.\<close>

definition getLookupFieldsForCurrentCo :: "app \<Rightarrow> world \<Rightarrow> (json list \<times> app \<times> world) option" where
  "getLookupFieldsForCurrentCo a w = getLookupFieldsForCurrentCo_interleaved (\<lambda>a. a) a w"

text \<open>The requests a paginated read sends when all its pages arrive: the initial
  endpoint, then the link that each page but the last advertises.\<close>

definition chain_requests :: "string \<Rightarrow> json list \<Rightarrow> json list" where
  "chain_requests endpoint pages = JStr endpoint # map next_endpoint (butlast pages)"

text \<open>The requests of a whole scan whose pages all arrive: the pages of the ticket, user
  and organization fields, those of the custom objects, and for each custom object those
  of its fields.\<close>

definition scan_requests ::
  "json list \<Rightarrow> json list \<Rightarrow> json list \<Rightarrow> json list \<Rightarrow> json list list \<Rightarrow> json list" where
  "scan_requests ticketPages userPages orgPages coPages coFieldPages =
     chain_requests ''/api/v2/ticket_fields.json'' ticketPages
     @ chain_requests ''/api/v2/user_fields.json'' userPages
     @ chain_requests ''/api/v2/organization_fields.json'' orgPages
     @ chain_requests ''/api/v2/custom_objects.json'' coPages
     @ concat (map (\<lambda>(obj, pages). chain_requests (custom_object_fields_endpoint obj) pages)
         (zip (concat (map (page_items ''custom_objects'') coPages)) coFieldPages))"

text \<open>The fields such a scan collects for a target: the matching lookup fields of each
  list in the order of the scan, every \<open>forEach\<close> ending at a nullish element.\<close>

definition scan_fields ::
  "string \<Rightarrow> json list \<Rightarrow> json list \<Rightarrow> json list \<Rightarrow> json list \<Rightarrow> json list list \<Rightarrow> json list" where
  "scan_fields target ticketPages userPages orgPages coPages coFieldPages =
     foldl (\<lambda>found (obj, pages).
              push_lookups (custom_object_entry obj) target
                (concat (map (page_items ''custom_object_fields'') pages)) found)
       (push_lookups (standard_entry ''zen:organization'' ''Organizations'') target
          (concat (map (page_items ''organization_fields'') orgPages))
          (push_lookups (standard_entry ''zen:user'' ''Users'') target
             (concat (map (page_items ''user_fields'') userPages))
             (push_lookups (standard_entry ''zen:ticket'' ''Tickets'') target
                (concat (map (page_items ''ticket_fields'') ticketPages)) [])))
       (zip (concat (map (page_items ''custom_objects'') coPages)) coFieldPages)"

section \<open>The migration and rollback engine\<close>

text \<open>
  The README of the toolkit names three scripts, migration.py, import_from_csv.py and
  undo_migration.py. They are not among the source files, so the engine is modelled from
  the specification: its data model (section 3), its components (section 4) and the
  README's rollback instructions.
\<close>

text \<open>Modelled from the spec: the field categories of the data model (the scripts that
  declare them are missing).\<close>

datatype category = TicketField | UserField | OrganizationField

text \<open>Modelled from the spec: the enumerated field types, with the fallback variant for
  an unknown type (the scripts are missing).\<close>

datatype field_type =
    TextType | TextareaType | IntegerType | DecimalType | DateType | CheckboxType
  | DropdownType | LookupType | OtherType string

text \<open>Modelled from the spec: identifiers are opaque and scoped to one instance, so the
  two scopes are two types (the scripts are missing).\<close>

datatype source_id = SourceId nat

text \<open>Modelled from the spec: an identifier the target instance assigned (the scripts
  are missing).\<close>

datatype target_id = TargetId nat

text \<open>Modelled from the spec: the error taxonomy of section 7 (the scripts are missing).\<close>

datatype error =
    TransientError | PermanentError | UnresolvedDependencyError
  | DanglingOptionError | DuplicateKeyError | FetchError

text \<open>Modelled from the spec: FieldOption of section 3 (the scripts are missing).\<close>

record FieldOption =
  option_value :: string
  option_name :: string
  option_position :: nat
  option_active :: bool

text \<open>Modelled from the spec: FieldDefinition of section 3, with its category (the
  scripts are missing).\<close>

record FieldDefinition =
  field_source_id :: source_id
  field_target_id :: "target_id option"
  field_category :: category
  field_key :: string
  field_title :: string
  field_kind :: field_type
  field_required :: bool
  field_options :: "FieldOption list"

text \<open>Modelled from the spec: TicketForm of section 3 (the scripts are missing). A form
  lists the fields of its layout and the fields its conditional-visibility rules
  mention, by source id.\<close>

record TicketForm =
  form_source_id :: source_id
  form_target_id :: "target_id option"
  form_name :: string
  form_fields :: "source_id list"
  form_rule_fields :: "source_id list"

subsection \<open>Dependency Resolver and Migration Executor\<close>

text \<open>Modelled from the spec: an entry of the ordered creation plan (migration.py is
  missing).\<close>

datatype plan_entry = FieldEntry FieldDefinition | FormEntry TicketForm

text \<open>Modelled from the spec: \<open>order(missingFields, missingForms)\<close> of the Dependency
  Resolver (migration.py is missing): all missing fields, in source read order, then all
  missing forms.\<close>

definition order_plan :: "FieldDefinition list \<Rightarrow> TicketForm list \<Rightarrow> plan_entry list" where
  "order_plan missingFields missingForms = map FieldEntry missingFields @ map FormEntry missingForms"

text \<open>Modelled from the spec: the field references of a form, layout and rules.\<close>

definition form_references :: "TicketForm \<Rightarrow> source_id set" where
  "form_references g = set (form_fields g) \<union> set (form_rule_fields g)"

text \<open>Modelled from the spec: the kinds of entity a log entry can record (the scripts
  are missing).\<close>

datatype entity = FieldEntity category | FormEntity

text \<open>Modelled from the spec: the RollbackLogEntry of section 3 (the scripts are
  missing).\<close>

record RollbackLogEntry =
  sequence_no :: nat
  entity_kind :: entity
  target_id :: target_id
  created_at :: nat

text \<open>Modelled from the spec: the creation payloads the Migration Executor submits
  (migration.py is missing). A form's payload carries the references of its layout and
  of its rules rewritten to the target's identifiers.\<close>

datatype payload =
    CreateField FieldDefinition
  | CreateForm TicketForm "target_id list" "target_id list"

text \<open>Modelled from the spec: the Request Executor's answer to a creation, the new
  object's identifier or a PermanentError (migration.py is missing).\<close>

datatype create_reply = Created target_id | Refused

text \<open>Modelled from the spec: substituting referenced field ids through the
  IdentifierMap; a reference with no mapping is unresolved (migration.py is missing).\<close>

fun resolve_refs :: "(source_id \<rightharpoonup> target_id) \<Rightarrow> source_id list \<Rightarrow> target_id list option" where
  "resolve_refs m [] = Some []"
| "resolve_refs m (r # rs) =
     (case m r of
        None \<Rightarrow> None
      | Some t \<Rightarrow> (case resolve_refs m rs of None \<Rightarrow> None | Some ts \<Rightarrow> Some (t # ts)))"

text \<open>Modelled from the spec: building a form's creation payload, which fails with
  UnresolvedDependencyError (migration.py is missing).\<close>

definition form_payload :: "(source_id \<rightharpoonup> target_id) \<Rightarrow> TicketForm \<Rightarrow> error + payload" where
  "form_payload m g =
     (case resolve_refs m (form_fields g) of
        None \<Rightarrow> Inl UnresolvedDependencyError
      | Some layout \<Rightarrow>
          (case resolve_refs m (form_rule_fields g) of
             None \<Rightarrow> Inl UnresolvedDependencyError
           | Some rules \<Rightarrow> Inr (CreateForm g layout rules)))"

text \<open>Modelled from the spec: the state of one run of the Migration Executor, which is
  the IdentifierMap, the rollback log, the payloads submitted and the entries skipped
  with the error that skipped them (migration.py is missing).\<close>

record run_state =
  identifier_map :: "source_id \<rightharpoonup> target_id"
  rollback_log :: "RollbackLogEntry list"
  submitted :: "payload list"
  skipped :: "(plan_entry \<times> error) list"

text \<open>Modelled from the spec: appending a RollbackLogEntry with the next sequence number
  (migration.py is missing).\<close>

definition append_log :: "entity \<Rightarrow> target_id \<Rightarrow> nat \<Rightarrow> RollbackLogEntry list \<Rightarrow> RollbackLogEntry list" where
  "append_log kind t time log =
     log @ [\<lparr>sequence_no = Suc (length log), entity_kind = kind, target_id = t, created_at = time\<rparr>]"

text \<open>Modelled from the spec: \<open>run(plan)\<close> of the Migration Executor (migration.py and
  import_from_csv.py are missing). \<open>exec k p\<close> is the Request Executor's answer to the
  payload \<open>p\<close> submitted as the run's request number \<open>k\<close>, and \<open>now k\<close> the time of that
  answer. A refused entry is skipped and the run continues.\<close>

fun run_entries ::
  "(nat \<Rightarrow> payload \<Rightarrow> create_reply) \<Rightarrow> (nat \<Rightarrow> nat) \<Rightarrow> plan_entry list \<Rightarrow> run_state \<Rightarrow> run_state" where
  "run_entries exec now [] st = st"
| "run_entries exec now (FieldEntry f # es) st =
     (let k = length (submitted st) in
      case exec k (CreateField f) of
        Created t \<Rightarrow>
          run_entries exec now es
            (st\<lparr>identifier_map := (identifier_map st)(field_source_id f \<mapsto> t),
                rollback_log := append_log (FieldEntity (field_category f)) t (now k) (rollback_log st),
                submitted := submitted st @ [CreateField f]\<rparr>)
      | Refused \<Rightarrow>
          run_entries exec now es
            (st\<lparr>submitted := submitted st @ [CreateField f],
                skipped := skipped st @ [(FieldEntry f, PermanentError)]\<rparr>))"
| "run_entries exec now (FormEntry g # es) st =
     (case form_payload (identifier_map st) g of
        Inl e \<Rightarrow> run_entries exec now es (st\<lparr>skipped := skipped st @ [(FormEntry g, e)]\<rparr>)
      | Inr p \<Rightarrow>
          (let k = length (submitted st) in
           case exec k p of
             Created t \<Rightarrow>
               run_entries exec now es
                 (st\<lparr>rollback_log := append_log FormEntity t (now k) (rollback_log st),
                     submitted := submitted st @ [p]\<rparr>)
           | Refused \<Rightarrow>
               run_entries exec now es
                 (st\<lparr>submitted := submitted st @ [p],
                     skipped := skipped st @ [(FormEntry g, PermanentError)]\<rparr>)))"

text \<open>Modelled from the spec: a run starts with an empty IdentifierMap and an empty log
  (migration.py is missing).\<close>

definition run :: "(nat \<Rightarrow> payload \<Rightarrow> create_reply) \<Rightarrow> (nat \<Rightarrow> nat) \<Rightarrow> plan_entry list \<Rightarrow> run_state" where
  "run exec now plan =
     run_entries exec now plan
       \<lparr>identifier_map = Map.empty, rollback_log = [], submitted = [], skipped = []\<rparr>"

subsection \<open>Rollback Engine\<close>

text \<open>Modelled from the spec: the operator's confirmation token; the README gives its
  text, DELETE (undo_migration.py is missing).\<close>

definition confirmation_token :: string where
  "confirmation_token = ''DELETE''"

text \<open>Modelled from the spec: the states of the Rollback Engine (undo_migration.py is
  missing).\<close>

datatype rollback_phase = Idle | Confirming | RollingBack | Done | Failed

text \<open>Modelled from the spec: the answers to a delete, where not-found is the answer for
  an object already absent (undo_migration.py is missing).\<close>

datatype delete_reply = Removed | NotFound | DeleteFailed

text \<open>Modelled from the spec: the Rolling Back state deletes each entry in turn; an
  object already absent counts as removed, any other failure is recorded and the next
  entry is attempted (undo_migration.py is missing). \<open>del k e\<close> is the answer to the
  delete of entry \<open>e\<close> issued as request number \<open>k\<close>.\<close>

fun delete_entries ::
  "(nat \<Rightarrow> RollbackLogEntry \<Rightarrow> delete_reply) \<Rightarrow> RollbackLogEntry list
     \<Rightarrow> RollbackLogEntry list \<Rightarrow> RollbackLogEntry list
     \<Rightarrow> RollbackLogEntry list \<times> RollbackLogEntry list" where
  "delete_entries del [] issued failed = (issued, failed)"
| "delete_entries del (e # es) issued failed =
     (case del (length issued) e of
        DeleteFailed \<Rightarrow> delete_entries del es (issued @ [e]) (failed @ [e])
      | _ \<Rightarrow> delete_entries del es (issued @ [e]) failed)"

text \<open>Modelled from the spec: what a rollback leaves, namely the final state, the
  entries whose delete was issued, in the order of issue, and the entries that could not
  be removed (undo_migration.py is missing).\<close>

record rollback_outcome =
  final_phase :: rollback_phase
  deletes_issued :: "RollbackLogEntry list"
  not_removed :: "RollbackLogEntry list"

text \<open>Modelled from the spec: the Rollback Engine (undo_migration.py is missing). Without
  the exact token it stays Idle; with it, it reads the full log, sorts it by
  \<open>sequence_no\<close> descending and deletes every entry.\<close>

definition rollback ::
  "string \<Rightarrow> (nat \<Rightarrow> RollbackLogEntry \<Rightarrow> delete_reply) \<Rightarrow> RollbackLogEntry list \<Rightarrow> rollback_outcome" where
  "rollback typed del log =
     (if typed \<noteq> confirmation_token
      then \<lparr>final_phase = Idle, deletes_issued = [], not_removed = []\<rparr>
      else
        (case delete_entries del (rev (sort_key sequence_no log)) [] [] of
           (issued, failed) \<Rightarrow>
             \<lparr>final_phase = (if failed = [] then Done else Failed),
              deletes_issued = issued, not_removed = failed\<rparr>))"

subsection \<open>Rate-Limited Request Executor\<close>

text \<open>Modelled from the spec: a request of the Request Executor (the scripts are
  missing).\<close>

record request =
  request_method :: string
  request_url :: string
  request_body :: string

text \<open>Modelled from the spec: the answers the remote can give to one submission, which
  are a 2xx response with its body, a rate-limit response with the advised wait when the
  server sends one, a timeout, and any other status (the scripts are missing).\<close>

datatype reply =
    Success string
  | RateLimited "nat option"
  | TimedOut
  | ErrorStatus nat

text \<open>Modelled from the spec: what the executor does to the outside, in order: it
  submits a request or suspends the flow for a duration (the scripts are missing).\<close>

datatype effect = Submit request | Pause nat

text \<open>Modelled from the spec: the wait after a rate-limit response is the server's
  advice, or the fixed default when there is none (the scripts are missing).\<close>

definition wait_duration :: "nat \<Rightarrow> nat option \<Rightarrow> nat" where
  "wait_duration default_wait advised = (case advised of None \<Rightarrow> default_wait | Some d \<Rightarrow> d)"

text \<open>Modelled from the spec: \<open>execute(request)\<close> of section 4.1 (the scripts are
  missing). The replies are the remote's answers to the coming submissions; when they
  run out the call never returns, which is \<open>None\<close>. A timeout is retried while the
  retry budget lasts and then fails with TransientError; a rate-limit response pauses
  and resubmits without touching the budget; any other status fails with
  PermanentError. The result is the outcome, the replies left and the effects.\<close>

fun execute ::
  "nat \<Rightarrow> nat \<Rightarrow> request \<Rightarrow> reply list \<Rightarrow> effect list
     \<Rightarrow> ((error + string) \<times> reply list \<times> effect list) option" where
  "execute default_wait budget req [] trace = None"
| "execute default_wait budget req (Success body # rs) trace =
     Some (Inr body, rs, trace @ [Submit req])"
| "execute default_wait budget req (RateLimited advised # rs) trace =
     execute default_wait budget req rs
       (trace @ [Submit req, Pause (wait_duration default_wait advised)])"
| "execute default_wait budget req (TimedOut # rs) trace =
     (case budget of
        0 \<Rightarrow> Some (Inl TransientError, rs, trace @ [Submit req])
      | Suc budget' \<Rightarrow> execute default_wait budget' req rs (trace @ [Submit req]))"
| "execute default_wait budget req (ErrorStatus status # rs) trace =
     Some (Inl PermanentError, rs, trace @ [Submit req])"

text \<open>Modelled from the spec: the effects of absorbing a run of rate-limit responses,
  one submission of the request and one pause for each.\<close>

definition rate_limit_effects :: "nat \<Rightarrow> request \<Rightarrow> nat option list \<Rightarrow> effect list" where
  "rate_limit_effects default_wait req advices =
     concat (map (\<lambda>advised. [Submit req, Pause (wait_duration default_wait advised)]) advices)"

subsection \<open>Plan Serializer\<close>

text \<open>Modelled from the spec: the rows of the plan file (section 6; the scripts are
  missing). A field row carries category, key, title, type, required, source id and
  target id; an option row carries value, name and position, and the category that the
  reader compares with its field row's.\<close>

datatype MigrationPlanRow =
    FieldRow category string string field_type bool source_id "target_id option"
  | OptionRow category string string nat

text \<open>Modelled from the spec: an option of the in-memory plan, with the columns of its
  option row (the scripts are missing).\<close>

record PlanOption =
  plan_option_value :: string
  plan_option_name :: string
  plan_option_position :: nat

text \<open>Modelled from the spec: the in-memory plan that the rows are the flattening of is
  a sequence of fields in creation order, each with the columns of its field row and the
  options of the option rows that follow it (the scripts are missing).\<close>

record PlanField =
  plan_category :: category
  plan_key :: string
  plan_title :: string
  plan_type :: field_type
  plan_required :: bool
  plan_source_id :: source_id
  plan_target_id :: "target_id option"
  plan_options :: "PlanOption list"

text \<open>Modelled from the spec: the option row of an option, under its field's category
  (the scripts are missing).\<close>

definition option_row :: "category \<Rightarrow> PlanOption \<Rightarrow> MigrationPlanRow" where
  "option_row c opt =
     OptionRow c (plan_option_value opt) (plan_option_name opt) (plan_option_position opt)"

text \<open>Modelled from the spec: the rows of one field, its field row followed by its
  option rows (the scripts are missing).\<close>

definition field_rows :: "PlanField \<Rightarrow> MigrationPlanRow list" where
  "field_rows f =
     FieldRow (plan_category f) (plan_key f) (plan_title f) (plan_type f) (plan_required f)
       (plan_source_id f) (plan_target_id f)
     # map (option_row (plan_category f)) (plan_options f)"

text \<open>Modelled from the spec: \<open>write(plan)\<close>, the rows of the fields in plan order
  (the scripts are missing).\<close>

definition write_plan :: "PlanField list \<Rightarrow> MigrationPlanRow list" where
  "write_plan plan = concat (map field_rows plan)"

text \<open>Modelled from the spec: the matching key of a field, category and key.\<close>

definition natural_key :: "PlanField \<Rightarrow> category \<times> string" where
  "natural_key f = (plan_category f, plan_key f)"

text \<open>Modelled from the spec: the loop of \<open>read(rows)\<close> (the scripts are missing). Rows
  are read in order. A field row whose key was already read in its category is a
  DuplicateKeyError; an option row belongs to the field row read last, and is a
  DanglingOptionError when there is none or its category differs.\<close>

fun read_rows :: "MigrationPlanRow list \<Rightarrow> PlanField list \<Rightarrow> error + PlanField list" where
  "read_rows [] plan = Inr plan"
| "read_rows (FieldRow c k t ty rq sid tid # rows) plan =
     (if (c, k) \<in> set (map natural_key plan) then Inl DuplicateKeyError
      else read_rows rows
             (plan @ [\<lparr>plan_category = c, plan_key = k, plan_title = t, plan_type = ty,
                       plan_required = rq, plan_source_id = sid, plan_target_id = tid,
                       plan_options = []\<rparr>]))"
| "read_rows (OptionRow c v n p # rows) plan =
     (if plan = [] then Inl DanglingOptionError
      else if plan_category (last plan) \<noteq> c then Inl DanglingOptionError
      else read_rows rows
             (butlast plan @
              [(last plan)\<lparr>plan_options := plan_options (last plan) @
                 [\<lparr>plan_option_value = v, plan_option_name = n, plan_option_position = p\<rparr>]\<rparr>]))"

text \<open>Modelled from the spec: \<open>read(rows)\<close> starts from the empty plan (the scripts
  are missing).\<close>

definition read_plan :: "MigrationPlanRow list \<Rightarrow> error + PlanField list" where
  "read_plan rows = read_rows rows []"

section \<open>Properties of the paginated reader\<close>

lemma client_request_Some:
  "client_request arg w = Some (r, w') \<longleftrightarrow> pending w = r # pending w' \<and> sent w' = sent w @ [arg]"
  by (cases w; cases w') (auto simp: client_request_def split: list.splits)

lemma fetch_chain:
  "page_chain ps \<Longrightarrow> truthy ep \<Longrightarrow>
   fetchAllPages_loop key ep acc \<lparr>pending = map Some ps @ rest, sent = s\<rparr>
     = Some (acc @ concat (map (page_items key) ps),
             \<lparr>pending = rest, sent = s @ ep # map next_endpoint (butlast ps)\<rparr>)"
proof (induction ps arbitrary: ep acc s rule: page_chain.induct)
  case 1
  then show ?case by simp
next
  case (2 p)
  then show ?case
    by (simp add: fetchAllPages_loop.simps [of key ep] fetchAllPages_loop.simps [of key "next_endpoint p"] client_request_def)
next
  case (3 p q ps)
  from 3(2) have c: "page_chain (q # ps)" and t: "truthy (next_endpoint p)" and n: "\<not> nullish p" by simp_all
  show ?case
    using 3(1) [OF c t] 3(3) n
    by (simp add: fetchAllPages_loop.simps [of key ep] client_request_def)
qed

lemma fetch_failed_page:
  "list_all (\<lambda>p. \<not> nullish p \<and> truthy (next_endpoint p)) ps \<Longrightarrow> truthy ep \<Longrightarrow>
   fetchAllPages_loop key ep acc \<lparr>pending = map Some ps @ None # rest, sent = s\<rparr>
     = Some (acc @ concat (map (page_items key) ps),
             \<lparr>pending = rest, sent = s @ ep # map next_endpoint ps\<rparr>)"
proof (induction ps arbitrary: ep acc s)
  case Nil
  then show ?case
    by (simp add: fetchAllPages_loop.simps [of key ep] client_request_def)
next
  case (Cons p ps)
  from Cons.prems have t: "truthy (next_endpoint p)" and n: "\<not> nullish p"
    and r: "list_all (\<lambda>p. \<not> nullish p \<and> truthy (next_endpoint p)) ps" by simp_all
  show ?case
    using Cons.IH [OF r t] Cons.prems(2) n
    by (simp add: fetchAllPages_loop.simps [of key ep] client_request_def)
qed

lemma fetch_loop_sent:
  "fetchAllPages_loop key ep acc w = Some (rs, w') \<Longrightarrow> \<exists>more. sent w' = sent w @ more"
proof (induction key ep acc w rule: fetchAllPages_loop.induct)
  case (1 dataKey currentEndpoint allRecords w)
  show ?case
    using "1.prems" "1.IH"
    by (subst (asm) fetchAllPages_loop.simps)
       (fastforce simp: client_request_Some split: if_splits option.splits prod.splits)
qed

lemma fetch_loop_first:
  "fetchAllPages_loop key ep acc w = Some (rs, w') \<Longrightarrow> truthy ep \<Longrightarrow>
   \<exists>more. sent w' = sent w @ ep # more"
  by (subst (asm) fetchAllPages_loop.simps)
     (fastforce simp: client_request_Some dest: fetch_loop_sent split: if_splits option.splits prod.splits)

text \<open>
  Claim C2. When every page arrives, \<open>fetchAllPages\<close> requests the initial endpoint and
  then each advertised next page until a page advertises none, and returns the items of
  all pages, concatenated in arrival order. A page whose data key is absent or holds an
  empty array contributes no item, and the loop goes on from it like from any other
  page.
\<close>

theorem fetchAllPages_concatenates_all_pages:
  assumes "page_chain pages" and "truthy initialEndpoint"
  shows "fetchAllPages initialEndpoint dataKey \<lparr>pending = map Some pages @ rest, sent = s\<rparr>
           = Some (concat (map (page_items dataKey) pages),
                   \<lparr>pending = rest,
                    sent = s @ initialEndpoint # map next_endpoint (butlast pages)\<rparr>)
         \<and> (\<forall>p. js_get p dataKey = JUndefined \<or> js_get p dataKey = JArr []
                \<longrightarrow> page_items dataKey p = [])"
  using fetch_chain [OF assms, of dataKey "[]" rest s]
  by (auto simp: fetchAllPages_def page_items_def)

theorem fetchAllPages_concatenates_all_pages_witness:
  "page_chain
     [JObj [(''ticket_fields'', JArr [JNum 1, JNum 2]),
            (''meta'', JObj [(''has_more'', JBool True)]),
            (''links'', JObj [(''next'', JStr ''/p2'')])],
      JObj [(''next_page'', JStr ''/p3'')],
      JObj [(''ticket_fields'', JArr [JNum 3]), (''next_page'', JNull)]]
   \<and> truthy (JStr ''/p1'')
   \<and> fetchAllPages (JStr ''/p1'') ''ticket_fields''
        \<lparr>pending =
           [Some (JObj [(''ticket_fields'', JArr [JNum 1, JNum 2]),
                        (''meta'', JObj [(''has_more'', JBool True)]),
                        (''links'', JObj [(''next'', JStr ''/p2'')])]),
            Some (JObj [(''next_page'', JStr ''/p3'')]),
            Some (JObj [(''ticket_fields'', JArr [JNum 3]), (''next_page'', JNull)])],
         sent = []\<rparr>
      = Some ([JNum 1, JNum 2, JNum 3],
              \<lparr>pending = [], sent = [JStr ''/p1'', JStr ''/p2'', JStr ''/p3'']\<rparr>)"
proof -
  let ?ps = "[JObj [(''ticket_fields'', JArr [JNum 1, JNum 2]),
            (''meta'', JObj [(''has_more'', JBool True)]),
            (''links'', JObj [(''next'', JStr ''/p2'')])],
      JObj [(''next_page'', JStr ''/p3'')],
      JObj [(''ticket_fields'', JArr [JNum 3]), (''next_page'', JNull)]]"
  have c: "page_chain ?ps" by (simp add: next_endpoint_def)
  have t: "truthy (JStr ''/p1'')" by simp
  show ?thesis
    using c t fetchAllPages_concatenates_all_pages [OF c t, of "''ticket_fields''" "[]" "[]"]
    by (simp add: next_endpoint_def page_items_def)
qed

text \<open>
  Claim C1, as stated, asks that a failed page fails the whole read. \<open>fetchAllPages\<close>
  catches the failure instead: with a first page of two records and a rejected second
  request it returns normally, with the two records.
\<close>

theorem fetchAllPages_returns_truncated_list:
  "fetchAllPages (JStr ''/api/v2/ticket_fields.json'') ''ticket_fields''
     \<lparr>pending =
        [Some (JObj [(''ticket_fields'', JArr [JNum 1, JNum 2]),
                     (''next_page'', JStr ''/api/v2/ticket_fields.json?page=2'')]),
         None],
      sent = []\<rparr>
   = Some ([JNum 1, JNum 2],
           \<lparr>pending = [],
            sent = [JStr ''/api/v2/ticket_fields.json'',
                    JStr ''/api/v2/ticket_fields.json?page=2'']\<rparr>)"
  by (simp add: fetchAllPages_def fetchAllPages_loop.simps client_request_def
        page_items_def next_endpoint_def)

text \<open>
  Claim C1, amended. When the request for a page is rejected after some pages arrived,
  each advertising a next one, \<open>fetchAllPages\<close> stops at the failed page: it returns the
  records of the pages before it, raises nothing and requests no further page.
\<close>

theorem fetchAllPages_stops_at_failed_page:
  assumes "list_all (\<lambda>p. \<not> nullish p \<and> truthy (next_endpoint p)) pages"
    and "truthy initialEndpoint"
  shows "fetchAllPages initialEndpoint dataKey
           \<lparr>pending = map Some pages @ None # rest, sent = s\<rparr>
         = Some (concat (map (page_items dataKey) pages),
                 \<lparr>pending = rest, sent = s @ initialEndpoint # map next_endpoint pages\<rparr>)"
  using fetch_failed_page [OF assms, of dataKey "[]" rest s]
  by (simp add: fetchAllPages_def)

theorem fetchAllPages_stops_at_failed_page_witness:
  "list_all (\<lambda>p. \<not> nullish p \<and> truthy (next_endpoint p))
     [JObj [(''ticket_fields'', JArr [JNum 1, JNum 2]), (''next_page'', JStr ''/p2'')]]
   \<and> truthy (JStr ''/p1'')
   \<and> fetchAllPages (JStr ''/p1'') ''ticket_fields''
        \<lparr>pending = [Some (JObj [(''ticket_fields'', JArr [JNum 1, JNum 2]),
                                 (''next_page'', JStr ''/p2'')]),
                     None, Some (JObj [(''ticket_fields'', JArr [JNum 3])])],
         sent = []\<rparr>
      = Some ([JNum 1, JNum 2],
              \<lparr>pending = [Some (JObj [(''ticket_fields'', JArr [JNum 3])])],
               sent = [JStr ''/p1'', JStr ''/p2'']\<rparr>)"
proof -
  let ?ps = "[JObj [(''ticket_fields'', JArr [JNum 1, JNum 2]), (''next_page'', JStr ''/p2'')]]"
  have c: "list_all (\<lambda>p. \<not> nullish p \<and> truthy (next_endpoint p)) ?ps"
    by (simp add: next_endpoint_def)
  have t: "truthy (JStr ''/p1'')" by simp
  show ?thesis
    using c t fetchAllPages_stops_at_failed_page
                [OF c t, of "''ticket_fields''" "[Some (JObj [(''ticket_fields'', JArr [JNum 3])])]" "[]"]
    by (simp add: next_endpoint_def page_items_def)
qed

section \<open>Properties of deletion\<close>

lemma fetchAllPages_sent:
  "fetchAllPages ep key w = Some (rs, w') \<Longrightarrow> \<exists>more. sent w' = sent w @ more"
  unfolding fetchAllPages_def by (rule fetch_loop_sent)

lemma loadTable_sent:
  "loadTable coKey a w = Some (a', w') \<Longrightarrow> \<exists>more. sent w' = sent w @ more"
  by (fastforce simp: loadTable_def Let_def client_request_Some
        dest: fetchAllPages_sent split: option.splits prod.splits if_splits)

lemma loadTable_cache:
  "loadTable coKey a w = Some (a', w') \<Longrightarrow>
   cachedLookupFields a' = cachedLookupFields a \<and> currentCoKey a' = currentCoKey a"
  by (auto simp: loadTable_def Let_def split: option.splits prod.splits if_splits)

text \<open>
  Claim C5. \<open>deleteRecord\<close> issues its DELETE call only in the branch where the operator
  accepted the confirmation dialog. Without the confirmation it sends no request at all
  and leaves the app and the world as they were; and whenever a run of \<open>deleteRecord\<close>
  has sent anything, the operator had confirmed and the first request sent is the delete
  of that record.
\<close>

theorem deleteRecord_needs_confirmation:
  "(\<not> confirmed \<longrightarrow> deleteRecord confirmed recordId a w = Some (a, w))
   \<and> (\<forall>a' w'. deleteRecord confirmed recordId a w = Some (a', w') \<and> sent w' \<noteq> sent w
         \<longrightarrow> confirmed \<and> (\<exists>more. sent w' = sent w @ delete_request (currentCoKey a) recordId # more))"
proof (intro conjI allI impI)
  assume "\<not> confirmed"
  then show "deleteRecord confirmed recordId a w = Some (a, w)" by (simp add: deleteRecord_def)
next
  fix a' w'
  assume h: "deleteRecord confirmed recordId a w = Some (a', w') \<and> sent w' \<noteq> sent w"
  then show "confirmed" by (auto simp: deleteRecord_def split: if_splits)
  with h show "\<exists>more. sent w' = sent w @ delete_request (currentCoKey a) recordId # more"
    by (fastforce simp: deleteRecord_def Let_def client_request_Some
          dest: loadTable_sent split: option.splits prod.splits)
qed

theorem deleteRecord_needs_confirmation_witness:
  "\<not> False
   \<and> deleteRecord False (JNum 7)
        \<lparr>currentCoKey = JStr ''car'', currentCoTitle = JStr ''Cars'', currentSchema = JArr [],
         cachedLookupFields = None, activeView = TableView, loaderText = [], tableRecords = []\<rparr>
        \<lparr>pending = [Some (JObj [])], sent = []\<rparr>
      = Some (\<lparr>currentCoKey = JStr ''car'', currentCoTitle = JStr ''Cars'', currentSchema = JArr [],
               cachedLookupFields = None, activeView = TableView, loaderText = [], tableRecords = []\<rparr>,
              \<lparr>pending = [Some (JObj [])], sent = []\<rparr>)
   \<and> deleteRecord True (JNum 7)
        \<lparr>currentCoKey = JStr ''car'', currentCoTitle = JStr ''Cars'', currentSchema = JArr [],
         cachedLookupFields = None, activeView = TableView, loaderText = [], tableRecords = []\<rparr>
        \<lparr>pending = [None], sent = []\<rparr>
      = Some (\<lparr>currentCoKey = JStr ''car'', currentCoTitle = JStr ''Cars'', currentSchema = JArr [],
               cachedLookupFields = None, activeView = TableView,
               loaderText = ''Deleting record 7...'', tableRecords = []\<rparr>,
              \<lparr>pending = [],
               sent = [JObj [(''url'', JStr ''/api/v2/custom_objects/car/records/7''),
                             (''type'', JStr ''DELETE'')]]\<rparr>)"
proof -
  let ?a = "\<lparr>currentCoKey = JStr ''car'', currentCoTitle = JStr ''Cars'', currentSchema = JArr [],
         cachedLookupFields = None, activeView = TableView, loaderText = [], tableRecords = []\<rparr>"
  show ?thesis
    using deleteRecord_needs_confirmation [of False "JNum 7" ?a "\<lparr>pending = [Some (JObj [])], sent = []\<rparr>"]
      deleteRecord_needs_confirmation [of True "JNum 7" ?a "\<lparr>pending = [None], sent = []\<rparr>"]
    by (simp add: deleteRecord_def client_request_def delete_request_def show_int_def)
qed

section \<open>Properties of the relationship cache\<close>

lemma scan_category_sent:
  "scan_category ep key entry target fs w = Some (r, w') \<Longrightarrow> ep \<noteq> [] \<Longrightarrow>
   \<exists>more. sent w' = sent w @ JStr ep # more"
  by (auto simp: scan_category_def fetchAllPages_def split: option.splits prod.splits
        dest!: fetch_loop_first)

lemma scan_custom_objects_sent:
  "scan_custom_objects target objs fs w = Some (r, w') \<Longrightarrow> \<exists>more. sent w' = sent w @ more"
proof (induction objs arbitrary: fs w)
  case Nil
  then show ?case by simp
next
  case (Cons obj objs)
  show ?case
  proof (cases "nullish obj")
    case True
    with Cons.prems show ?thesis by simp
  next
    case False
    with Cons.prems obtain fs1 w1 where
      s: "scan_category (custom_object_fields_endpoint obj)
            ''custom_object_fields'' (custom_object_entry obj) target fs w = Some (fs1, w1)"
      and r: "scan_custom_objects target objs fs1 w1 = Some (r, w')"
      by (auto split: option.splits prod.splits)
    have "custom_object_fields_endpoint obj \<noteq> []"
      by (simp add: custom_object_fields_endpoint_def)
    from scan_category_sent [OF s this] obtain m1 where "sent w1 = sent w @ m1" by auto
    moreover from Cons.IH [OF r] obtain m2 where "sent w' = sent w1 @ m2" by auto
    ultimately show ?thesis by simp
  qed
qed

lemma discovery_scan_sent:
  assumes "discovery_scan target w = Some (fs, w')"
  shows "\<exists>more. sent w' = sent w @ JStr ''/api/v2/ticket_fields.json'' # more"
proof -
  from assms obtain f1 w1 f2 w2 f3 w3 objs w4 where
    s1: "scan_category ''/api/v2/ticket_fields.json'' ''ticket_fields''
           (standard_entry ''zen:ticket'' ''Tickets'') target [] w = Some (f1, w1)"
    and s2: "scan_category ''/api/v2/user_fields.json'' ''user_fields''
           (standard_entry ''zen:user'' ''Users'') target f1 w1 = Some (f2, w2)"
    and s3: "scan_category ''/api/v2/organization_fields.json'' ''organization_fields''
           (standard_entry ''zen:organization'' ''Organizations'') target f2 w2 = Some (f3, w3)"
    and s4: "fetchAllPages (JStr ''/api/v2/custom_objects.json'') ''custom_objects'' w3 = Some (objs, w4)"
    and s5: "scan_custom_objects target objs f3 w4 = Some (fs, w')"
    unfolding discovery_scan_def by (auto split: option.splits prod.splits)
  from scan_category_sent [OF s1] obtain m1 where
    "sent w1 = sent w @ JStr ''/api/v2/ticket_fields.json'' # m1" by auto
  moreover from scan_category_sent [OF s2] obtain m2 where "sent w2 = sent w1 @ m2" by auto
  moreover from scan_category_sent [OF s3] obtain m3 where "sent w3 = sent w2 @ m3" by auto
  moreover from fetchAllPages_sent [OF s4] obtain m4 where "sent w4 = sent w3 @ m4" by auto
  moreover from scan_custom_objects_sent [OF s5] obtain m5 where "sent w' = sent w4 @ m5" by auto
  ultimately show ?thesis by simp
qed

lemma deleteRecord_cache:
  "deleteRecord confirmed recordId a w = Some (a', w') \<Longrightarrow>
   cachedLookupFields a' = cachedLookupFields a"
  by (auto simp: deleteRecord_def Let_def split: if_splits option.splits prod.splits
        dest!: loadTable_cache)

lemma scan_category_chain:
  assumes "page_chain pages" and "endpoint \<noteq> []"
  shows "scan_category endpoint dataKey entry target found
           \<lparr>pending = map Some pages @ rest, sent = s\<rparr>
         = Some (push_lookups entry target (concat (map (page_items dataKey) pages)) found,
                 \<lparr>pending = rest, sent = s @ chain_requests endpoint pages\<rparr>)"
proof -
  from assms(2) have "truthy (JStr endpoint)" by simp
  from fetch_chain [OF assms(1) this, of dataKey "[]" rest s]
  show ?thesis by (simp add: scan_category_def fetchAllPages_def chain_requests_def)
qed

lemma scan_custom_objects_chains:
  "list_all2 (\<lambda>obj pages. \<not> nullish obj \<and> page_chain pages) objs coFieldPages \<Longrightarrow>
   scan_custom_objects target objs found
     \<lparr>pending = map Some (concat coFieldPages) @ rest, sent = s\<rparr>
   = Some (foldl (\<lambda>found (obj, pages).
                    push_lookups (custom_object_entry obj) target
                      (concat (map (page_items ''custom_object_fields'') pages)) found)
             found (zip objs coFieldPages),
           \<lparr>pending = rest,
            sent = s @ concat (map (\<lambda>(obj, pages).
                          chain_requests (custom_object_fields_endpoint obj) pages)
                        (zip objs coFieldPages))\<rparr>)"
proof (induction objs coFieldPages arbitrary: found s rule: list_all2_induct)
  case Nil
  show ?case by simp
next
  case (Cons obj objs pages coFieldPages)
  from Cons.hyps(1) have n: "\<not> nullish obj" and c: "page_chain pages" by simp_all
  have e: "custom_object_fields_endpoint obj \<noteq> []"
    by (simp add: custom_object_fields_endpoint_def)
  from scan_category_chain [OF c e, of "''custom_object_fields''" "custom_object_entry obj" target
      found "map Some (concat coFieldPages) @ rest" s]
    Cons.IH n
  show ?case by simp
qed

lemma discovery_scan_chains:
  assumes "page_chain ticketPages" "page_chain userPages" "page_chain orgPages" "page_chain coPages"
    and "list_all2 (\<lambda>obj pages. \<not> nullish obj \<and> page_chain pages)
           (concat (map (page_items ''custom_objects'') coPages)) coFieldPages"
  shows "discovery_scan target
           \<lparr>pending = map Some (ticketPages @ userPages @ orgPages @ coPages @ concat coFieldPages) @ rest,
            sent = s\<rparr>
         = Some (scan_fields target ticketPages userPages orgPages coPages coFieldPages,
                 \<lparr>pending = rest,
                  sent = s @ scan_requests ticketPages userPages orgPages coPages coFieldPages\<rparr>)"
proof -
  have t: "truthy (JStr ''/api/v2/custom_objects.json'')" by simp
  note s1 = scan_category_chain [OF assms(1), of "''/api/v2/ticket_fields.json''" "''ticket_fields''"
      "standard_entry ''zen:ticket'' ''Tickets''" target "[]"
      "map Some userPages @ map Some orgPages @ map Some coPages @ map Some (concat coFieldPages) @ rest" s]
  note s2 = scan_category_chain [OF assms(2), of "''/api/v2/user_fields.json''" "''user_fields''"
      "standard_entry ''zen:user'' ''Users''" target _
      "map Some orgPages @ map Some coPages @ map Some (concat coFieldPages) @ rest"]
  note s3 = scan_category_chain [OF assms(3), of "''/api/v2/organization_fields.json''"
      "''organization_fields''" "standard_entry ''zen:organization'' ''Organizations''" target _
      "map Some coPages @ map Some (concat coFieldPages) @ rest"]
  note s4 = fetch_chain [OF assms(4) t, of "''custom_objects''" "[]"
      "map Some (concat coFieldPages) @ rest"]
  note s5 = scan_custom_objects_chains [OF assms(5), of target _ rest]
  show ?thesis
    unfolding discovery_scan_def
    by (simp add: s1 s2 s3 s4 s5 fetchAllPages_def scan_fields_def scan_requests_def
          chain_requests_def)
qed


lemma loadTable_rejected:
  "loadTable coKey a \<lparr>pending = None # rest, sent = s\<rparr>
     = Some (a\<lparr>loaderText := ''Error loading table data.'', activeView := LoaderView\<rparr>,
             \<lparr>pending = rest,
              sent = s @ [JStr (''/api/v2/custom_objects/'' @ js_to_string coKey @ ''/fields'')]\<rparr>)"
  by (simp add: loadTable_def client_request_def)

lemma loadTable_chain:
  assumes "\<not> nullish schema" and "page_chain recordPages"
  shows "\<exists>a'. loadTable coKey a \<lparr>pending = Some schema # map Some recordPages @ rest, sent = s\<rparr>
           = Some (a', \<lparr>pending = rest,
                        sent = s @ JStr (''/api/v2/custom_objects/'' @ js_to_string coKey @ ''/fields'')
                                 # chain_requests (''/api/v2/custom_objects/'' @ js_to_string coKey
                                      @ ''/records?page[size]=100'') recordPages\<rparr>)"
proof -
  have t: "truthy (JStr (''/api/v2/custom_objects/'' @ js_to_string coKey @ ''/records?page[size]=100''))"
    by simp
  from fetch_chain [OF assms(2) t, of "''custom_object_records''" "[]" rest]
  show ?thesis using assms(1)
    by (simp add: loadTable_def client_request_def fetchAllPages_def chain_requests_def Let_def)
qed

text \<open>
  Claim C7, as stated, has the cache invalidated exactly when the selected object
  changes. The load button's handler resets it on every selection: with the object
  \<open>car\<close> selected and its cache filled, selecting \<open>car\<close> again empties the cache, so the
  next call scans again although the selected object did not change.
\<close>

theorem reselecting_same_object_resets_cache:
  "currentCoKey
     \<lparr>currentCoKey = JStr ''car'', currentCoTitle = JStr ''Cars'', currentSchema = JArr [],
      cachedLookupFields = Some [JObj [(''id'', JNum 5)]], activeView = SelectorView,
      loaderText = [], tableRecords = []\<rparr> = JStr ''car''
   \<and> load_co_btn_click ''car'' ''Cars''
        \<lparr>currentCoKey = JStr ''car'', currentCoTitle = JStr ''Cars'', currentSchema = JArr [],
         cachedLookupFields = Some [JObj [(''id'', JNum 5)]], activeView = SelectorView,
         loaderText = [], tableRecords = []\<rparr>
        \<lparr>pending = [Some (JObj [(''custom_object_fields'', JArr [])]),
                     Some (JObj [(''custom_object_records'', JArr [])])],
         sent = []\<rparr>
      = Some (\<lparr>currentCoKey = JStr ''car'', currentCoTitle = JStr ''Cars'', currentSchema = JArr [],
               cachedLookupFields = None, activeView = TableView,
               loaderText = ''Rendering table...'', tableRecords = []\<rparr>,
              \<lparr>pending = [],
               sent = [JStr ''/api/v2/custom_objects/car/fields'',
                       JStr ''/api/v2/custom_objects/car/records?page[size]=100'']\<rparr>)"
  by (simp add: load_co_btn_click_def select_object_def loadTable_def fetchAllPages_def
        fetchAllPages_loop.simps client_request_def page_items_def next_endpoint_def
        table_renders_def)

text \<open>
  Claim C7, amended, for calls of \<open>getLookupFieldsForCurrentCo\<close> during which no other
  handler runs. The cache is filled on first use and reset by every selection made with
  the load button, also of the object already selected. A call with an empty cache whose
  pages all arrive returns the fields the scan collects from them, stores them in the
  cache and has sent exactly the scan's requests; and whenever a call with an empty
  cache returns, it has run the discovery scan, starting with the request for the
  ticket fields, and stored its result. A call with the cache filled returns the stored
  fields and sends no request, in whatever world it runs. A click on the load button
  with an object chosen returns once its schema request is rejected or its pages have
  arrived, and whenever it returns it leaves the cache empty and that object current; a
  click with nothing chosen changes nothing; and \<open>deleteRecord\<close> keeps the cache.
\<close>

theorem lookup_cache_filled_once_reset_on_selection:
  "(cachedLookupFields a = None
      \<and> page_chain ticketPages \<and> page_chain userPages \<and> page_chain orgPages \<and> page_chain coPages
      \<and> list_all2 (\<lambda>obj pages. \<not> nullish obj \<and> page_chain pages)
           (concat (map (page_items ''custom_objects'') coPages)) coFieldPages
      \<and> pending w
          = map Some (ticketPages @ userPages @ orgPages @ coPages @ concat coFieldPages) @ rest \<longrightarrow>
      getLookupFieldsForCurrentCo a w
        = Some (scan_fields (''zen:custom_object:'' @ js_to_string (currentCoKey a))
                  ticketPages userPages orgPages coPages coFieldPages,
                a\<lparr>cachedLookupFields :=
                    Some (scan_fields (''zen:custom_object:'' @ js_to_string (currentCoKey a))
                            ticketPages userPages orgPages coPages coFieldPages)\<rparr>,
                \<lparr>pending = rest,
                 sent = sent w @ scan_requests ticketPages userPages orgPages coPages coFieldPages\<rparr>))
   \<and> (cachedLookupFields a = None \<and> getLookupFieldsForCurrentCo a w = Some (fs, a', w') \<longrightarrow>
      discovery_scan (''zen:custom_object:'' @ js_to_string (currentCoKey a)) w = Some (fs, w')
      \<and> a' = a\<lparr>cachedLookupFields := Some fs\<rparr>
      \<and> (\<exists>more. sent w' = sent w @ JStr ''/api/v2/ticket_fields.json'' # more))
   \<and> (cachedLookupFields a = Some fs \<longrightarrow> getLookupFieldsForCurrentCo a w = Some (fs, a, w))
   \<and> (getLookupFieldsForCurrentCo a w = Some (fs, a', w') \<longrightarrow>
        (\<forall>w2. getLookupFieldsForCurrentCo a' w2 = Some (fs, a', w2)))
   \<and> (selectedKey \<noteq> []
        \<and> (pending w = None # rest
            \<or> \<not> nullish schema \<and> page_chain recordPages
              \<and> pending w = Some schema # map Some recordPages @ rest) \<longrightarrow>
        (\<exists>a2 w2. load_co_btn_click selectedKey selectedText a w = Some (a2, w2)
           \<and> pending w2 = rest \<and> cachedLookupFields a2 = None
           \<and> currentCoKey a2 = JStr selectedKey))
   \<and> (selectedKey \<noteq> [] \<and> load_co_btn_click selectedKey selectedText a w = Some (a2, w2) \<longrightarrow>
        cachedLookupFields a2 = None \<and> currentCoKey a2 = JStr selectedKey)
   \<and> load_co_btn_click [] selectedText a w = Some (a, w)
   \<and> (deleteRecord confirmed recordId a w = Some (a3, w3) \<longrightarrow>
        cachedLookupFields a3 = cachedLookupFields a)"
proof (intro conjI impI)
  assume h: "cachedLookupFields a = None
      \<and> page_chain ticketPages \<and> page_chain userPages \<and> page_chain orgPages \<and> page_chain coPages
      \<and> list_all2 (\<lambda>obj pages. \<not> nullish obj \<and> page_chain pages)
           (concat (map (page_items ''custom_objects'') coPages)) coFieldPages
      \<and> pending w
          = map Some (ticketPages @ userPages @ orgPages @ coPages @ concat coFieldPages) @ rest"
  then have w: "w = \<lparr>pending = map Some (ticketPages @ userPages @ orgPages @ coPages
                           @ concat coFieldPages) @ rest, sent = sent w\<rparr>"
    by (cases w) simp
  from h have "discovery_scan (''zen:custom_object:'' @ js_to_string (currentCoKey a)) w
      = Some (scan_fields (''zen:custom_object:'' @ js_to_string (currentCoKey a))
                ticketPages userPages orgPages coPages coFieldPages,
              \<lparr>pending = rest,
               sent = sent w @ scan_requests ticketPages userPages orgPages coPages coFieldPages\<rparr>)"
    by (subst w) (rule discovery_scan_chains, simp_all)
  with h show "getLookupFieldsForCurrentCo a w
        = Some (scan_fields (''zen:custom_object:'' @ js_to_string (currentCoKey a))
                  ticketPages userPages orgPages coPages coFieldPages,
                a\<lparr>cachedLookupFields :=
                    Some (scan_fields (''zen:custom_object:'' @ js_to_string (currentCoKey a))
                            ticketPages userPages orgPages coPages coFieldPages)\<rparr>,
                \<lparr>pending = rest,
                 sent = sent w @ scan_requests ticketPages userPages orgPages coPages coFieldPages\<rparr>)"
    by (simp add: getLookupFieldsForCurrentCo_def getLookupFieldsForCurrentCo_interleaved_def)
next
  assume h: "cachedLookupFields a = None \<and> getLookupFieldsForCurrentCo a w = Some (fs, a', w')"
  then show scan: "discovery_scan (''zen:custom_object:'' @ js_to_string (currentCoKey a)) w = Some (fs, w')"
    and "a' = a\<lparr>cachedLookupFields := Some fs\<rparr>"
    by (auto simp: getLookupFieldsForCurrentCo_def getLookupFieldsForCurrentCo_interleaved_def
          split: option.splits)
  from discovery_scan_sent [OF scan]
  show "\<exists>more. sent w' = sent w @ JStr ''/api/v2/ticket_fields.json'' # more" .
next
  assume "cachedLookupFields a = Some fs"
  then show "getLookupFieldsForCurrentCo a w = Some (fs, a, w)"
    by (simp add: getLookupFieldsForCurrentCo_def getLookupFieldsForCurrentCo_interleaved_def)
next
  assume "getLookupFieldsForCurrentCo a w = Some (fs, a', w')"
  then have "cachedLookupFields a' = Some fs"
    by (auto simp: getLookupFieldsForCurrentCo_def getLookupFieldsForCurrentCo_interleaved_def
          split: option.splits)
  then show "\<forall>w2. getLookupFieldsForCurrentCo a' w2 = Some (fs, a', w2)"
    by (simp add: getLookupFieldsForCurrentCo_def getLookupFieldsForCurrentCo_interleaved_def)
next
  assume h: "selectedKey \<noteq> []
        \<and> (pending w = None # rest
            \<or> \<not> nullish schema \<and> page_chain recordPages
              \<and> pending w = Some schema # map Some recordPages @ rest)"
  then have "\<exists>a2 w2. loadTable (JStr selectedKey) (select_object selectedKey selectedText a) w
                 = Some (a2, w2) \<and> pending w2 = rest"
  proof (elim conjE disjE)
    assume "pending w = None # rest"
    then have "w = \<lparr>pending = None # rest, sent = sent w\<rparr>" by (cases w) simp
    then show ?thesis
      using loadTable_rejected [of "JStr selectedKey" "select_object selectedKey selectedText a"
          rest "sent w"]
      by simp
  next
    assume n: "\<not> nullish schema" and c: "page_chain recordPages"
      and "pending w = Some schema # map Some recordPages @ rest"
    then have "w = \<lparr>pending = Some schema # map Some recordPages @ rest, sent = sent w\<rparr>"
      by (cases w) simp
    then show ?thesis
      using loadTable_chain [OF n c, of "JStr selectedKey"
          "select_object selectedKey selectedText a" rest "sent w"]
      by auto
  qed
  then obtain a2 w2 where
    l: "loadTable (JStr selectedKey) (select_object selectedKey selectedText a) w = Some (a2, w2)"
    and p: "pending w2 = rest" by blast
  from loadTable_cache [OF l] have "cachedLookupFields a2 = None" "currentCoKey a2 = JStr selectedKey"
    by (simp_all add: select_object_def)
  with h l p show "\<exists>a2 w2. load_co_btn_click selectedKey selectedText a w = Some (a2, w2)
           \<and> pending w2 = rest \<and> cachedLookupFields a2 = None
           \<and> currentCoKey a2 = JStr selectedKey"
    by (simp add: load_co_btn_click_def)
next
  assume "selectedKey \<noteq> [] \<and> load_co_btn_click selectedKey selectedText a w = Some (a2, w2)"
  then show "cachedLookupFields a2 = None" and "currentCoKey a2 = JStr selectedKey"
    by (auto simp: load_co_btn_click_def select_object_def dest!: loadTable_cache)
next
  show "load_co_btn_click [] selectedText a w = Some (a, w)"
    by (simp add: load_co_btn_click_def)
next
  assume "deleteRecord confirmed recordId a w = Some (a3, w3)"
  then show "cachedLookupFields a3 = cachedLookupFields a" by (rule deleteRecord_cache)
qed


theorem lookup_cache_filled_once_reset_on_selection_witness:
  "cachedLookupFields
     \<lparr>currentCoKey = JStr ''car'', currentCoTitle = JStr ''Cars'', currentSchema = JArr [],
      cachedLookupFields = None, activeView = FormView, loaderText = [], tableRecords = []\<rparr> = None
   \<and> page_chain [JObj [(''ticket_fields'',
          JArr [JObj [(''id'', JNum 5), (''title'', JStr ''Car''), (''type'', JStr ''lookup''),
                      (''relationship_target_type'', JStr ''zen:custom_object:car'')]])]]
   \<and> page_chain [JObj []]
   \<and> page_chain [JObj [(''custom_objects'', JArr [JObj [(''key'', JStr ''garage''),
                                                        (''title_pluralized'', JStr ''Garages'')]])]]
   \<and> list_all2 (\<lambda>obj pages. \<not> nullish obj \<and> page_chain pages)
        (concat (map (page_items ''custom_objects'')
           [JObj [(''custom_objects'', JArr [JObj [(''key'', JStr ''garage''),
                                                  (''title_pluralized'', JStr ''Garages'')]])]]))
        [[JObj [(''custom_object_fields'',
            JArr [JObj [(''key'', JStr ''parked''), (''title'', JStr ''Parked car''),
                        (''type'', JStr ''lookup''),
                        (''relationship_target_type'', JStr ''zen:custom_object:car'')]])]]]
   \<and> getLookupFieldsForCurrentCo
        \<lparr>currentCoKey = JStr ''car'', currentCoTitle = JStr ''Cars'', currentSchema = JArr [],
         cachedLookupFields = None, activeView = FormView, loaderText = [], tableRecords = []\<rparr>
        \<lparr>pending =
           [Some (JObj [(''ticket_fields'',
              JArr [JObj [(''id'', JNum 5), (''title'', JStr ''Car''), (''type'', JStr ''lookup''),
                          (''relationship_target_type'', JStr ''zen:custom_object:car'')]])]),
            Some (JObj []), Some (JObj []),
            Some (JObj [(''custom_objects'', JArr [JObj [(''key'', JStr ''garage''),
                                                        (''title_pluralized'', JStr ''Garages'')]])]),
            Some (JObj [(''custom_object_fields'',
              JArr [JObj [(''key'', JStr ''parked''), (''title'', JStr ''Parked car''),
                          (''type'', JStr ''lookup''),
                          (''relationship_target_type'', JStr ''zen:custom_object:car'')]])])],
         sent = []\<rparr>
      = Some ([JObj [(''id'', JNum 5), (''title'', JStr ''Car''), (''type'', JStr ''zen:ticket''),
                     (''label'', JStr ''Tickets'')],
               JObj [(''id'', JStr ''parked''), (''title'', JStr ''Parked car''),
                     (''type'', JStr ''zen:custom_object:garage''), (''label'', JStr ''Garages'')]],
              \<lparr>currentCoKey = JStr ''car'', currentCoTitle = JStr ''Cars'', currentSchema = JArr [],
               cachedLookupFields =
                 Some [JObj [(''id'', JNum 5), (''title'', JStr ''Car''), (''type'', JStr ''zen:ticket''),
                             (''label'', JStr ''Tickets'')],
                       JObj [(''id'', JStr ''parked''), (''title'', JStr ''Parked car''),
                             (''type'', JStr ''zen:custom_object:garage''),
                             (''label'', JStr ''Garages'')]],
               activeView = FormView, loaderText = [], tableRecords = []\<rparr>,
              \<lparr>pending = [],
               sent = [JStr ''/api/v2/ticket_fields.json'', JStr ''/api/v2/user_fields.json'',
                       JStr ''/api/v2/organization_fields.json'', JStr ''/api/v2/custom_objects.json'',
                       JStr ''/api/v2/custom_objects/garage/fields.json'']\<rparr>)
   \<and> getLookupFieldsForCurrentCo
        \<lparr>currentCoKey = JStr ''car'', currentCoTitle = JStr ''Cars'', currentSchema = JArr [],
         cachedLookupFields = Some [JObj [(''id'', JNum 5)]],
         activeView = FormView, loaderText = [], tableRecords = []\<rparr>
        \<lparr>pending = [None], sent = []\<rparr>
      = Some ([JObj [(''id'', JNum 5)]],
              \<lparr>currentCoKey = JStr ''car'', currentCoTitle = JStr ''Cars'', currentSchema = JArr [],
               cachedLookupFields = Some [JObj [(''id'', JNum 5)]],
               activeView = FormView, loaderText = [], tableRecords = []\<rparr>,
              \<lparr>pending = [None], sent = []\<rparr>)
   \<and> ''garage'' \<noteq> []
   \<and> load_co_btn_click ''garage'' ''Garages''
        \<lparr>currentCoKey = JStr ''car'', currentCoTitle = JStr ''Cars'', currentSchema = JArr [],
         cachedLookupFields = Some [JObj [(''id'', JNum 5)]],
         activeView = SelectorView, loaderText = [], tableRecords = []\<rparr>
        \<lparr>pending = [None], sent = []\<rparr>
      = Some (\<lparr>currentCoKey = JStr ''garage'', currentCoTitle = JStr ''Garages'',
               currentSchema = JArr [], cachedLookupFields = None, activeView = LoaderView,
               loaderText = ''Error loading table data.'', tableRecords = []\<rparr>,
              \<lparr>pending = [], sent = [JStr ''/api/v2/custom_objects/garage/fields'']\<rparr>)"
proof -
  let ?a = "\<lparr>currentCoKey = JStr ''car'', currentCoTitle = JStr ''Cars'', currentSchema = JArr [],
      cachedLookupFields = None, activeView = FormView, loaderText = [], tableRecords = []\<rparr>"
  let ?t = "[JObj [(''ticket_fields'',
          JArr [JObj [(''id'', JNum 5), (''title'', JStr ''Car''), (''type'', JStr ''lookup''),
                      (''relationship_target_type'', JStr ''zen:custom_object:car'')]])]]"
  let ?e = "[JObj []]"
  let ?c = "[JObj [(''custom_objects'', JArr [JObj [(''key'', JStr ''garage''),
                                                        (''title_pluralized'', JStr ''Garages'')]])]]"
  let ?f = "[[JObj [(''custom_object_fields'',
            JArr [JObj [(''key'', JStr ''parked''), (''title'', JStr ''Parked car''),
                        (''type'', JStr ''lookup''),
                        (''relationship_target_type'', JStr ''zen:custom_object:car'')]])]]]"
  let ?w = "\<lparr>pending = map Some (?t @ ?e @ ?e @ ?c @ concat ?f) @ [], sent = []\<rparr>"
  let ?b = "\<lparr>currentCoKey = JStr ''car'', currentCoTitle = JStr ''Cars'', currentSchema = JArr [],
         cachedLookupFields = Some [JObj [(''id'', JNum 5)]],
         activeView = FormView, loaderText = [], tableRecords = []\<rparr>"
  let ?s = "\<lparr>currentCoKey = JStr ''car'', currentCoTitle = JStr ''Cars'', currentSchema = JArr [],
         cachedLookupFields = Some [JObj [(''id'', JNum 5)]],
         activeView = SelectorView, loaderText = [], tableRecords = []\<rparr>"
  let ?r = "\<lparr>pending = [None], sent = []\<rparr>"
  have n: "cachedLookupFields ?a = None" by simp
  have ct: "page_chain ?t" and ce: "page_chain ?e" and cc: "page_chain ?c"
    by (simp_all add: next_endpoint_def)
  have cf: "list_all2 (\<lambda>obj pages. \<not> nullish obj \<and> page_chain pages)
        (concat (map (page_items ''custom_objects'') ?c)) ?f"
    by (simp add: page_items_def next_endpoint_def)
  have p: "pending ?w = map Some (?t @ ?e @ ?e @ ?c @ concat ?f) @ []" by simp
  from lookup_cache_filled_once_reset_on_selection
         [of ?a ?t ?e ?e ?c ?f ?w "[]", THEN conjunct1] n ct ce cc cf p
  have "getLookupFieldsForCurrentCo ?a ?w
        = Some (scan_fields (''zen:custom_object:'' @ js_to_string (currentCoKey ?a)) ?t ?e ?e ?c ?f,
                ?a\<lparr>cachedLookupFields :=
                    Some (scan_fields (''zen:custom_object:'' @ js_to_string (currentCoKey ?a))
                            ?t ?e ?e ?c ?f)\<rparr>,
                \<lparr>pending = [], sent = sent ?w @ scan_requests ?t ?e ?e ?c ?f\<rparr>)"
    by blast
  then have first: "getLookupFieldsForCurrentCo ?a ?w
      = Some ([JObj [(''id'', JNum 5), (''title'', JStr ''Car''), (''type'', JStr ''zen:ticket''),
                     (''label'', JStr ''Tickets'')],
               JObj [(''id'', JStr ''parked''), (''title'', JStr ''Parked car''),
                     (''type'', JStr ''zen:custom_object:garage''), (''label'', JStr ''Garages'')]],
              ?a\<lparr>cachedLookupFields :=
                 Some [JObj [(''id'', JNum 5), (''title'', JStr ''Car''), (''type'', JStr ''zen:ticket''),
                             (''label'', JStr ''Tickets'')],
                       JObj [(''id'', JStr ''parked''), (''title'', JStr ''Parked car''),
                             (''type'', JStr ''zen:custom_object:garage''),
                             (''label'', JStr ''Garages'')]]\<rparr>,
              \<lparr>pending = [],
               sent = [JStr ''/api/v2/ticket_fields.json'', JStr ''/api/v2/user_fields.json'',
                       JStr ''/api/v2/organization_fields.json'', JStr ''/api/v2/custom_objects.json'',
                       JStr ''/api/v2/custom_objects/garage/fields.json'']\<rparr>)"
    by (simp add: scan_fields_def scan_requests_def chain_requests_def page_items_def
          lookup_match_def standard_entry_def custom_object_entry_def
          custom_object_fields_endpoint_def)
  have again: "getLookupFieldsForCurrentCo ?b ?r = Some ([JObj [(''id'', JNum 5)]], ?b, ?r)"
    by (simp add: getLookupFieldsForCurrentCo_def getLookupFieldsForCurrentCo_interleaved_def)
  have click: "load_co_btn_click ''garage'' ''Garages'' ?s ?r
      = Some (\<lparr>currentCoKey = JStr ''garage'', currentCoTitle = JStr ''Garages'',
               currentSchema = JArr [], cachedLookupFields = None, activeView = LoaderView,
               loaderText = ''Error loading table data.'', tableRecords = []\<rparr>,
              \<lparr>pending = [], sent = [JStr ''/api/v2/custom_objects/garage/fields'']\<rparr>)"
    by (simp add: load_co_btn_click_def select_object_def loadTable_def client_request_def)
  from n ct ce cc cf first again click show ?thesis by simp
qed

text \<open>
  A scan in flight when an object is loaded from the selector. The click handler empties
  the cache while \<open>getLookupFieldsForCurrentCo\<close> waits for its pages; when the scan
  ends, the function stores the fields it collected for the object that was current
  when it was called. The object chosen meanwhile is then the current one with those
  fields in its cache, and later calls return them without a scan.
\<close>

theorem scan_in_flight_outlives_selection:
  "cachedLookupFields a = None
     \<and> discovery_scan (''zen:custom_object:'' @ js_to_string (currentCoKey a)) w = Some (fs, w') \<longrightarrow>
   getLookupFieldsForCurrentCo_interleaved (select_object selectedKey selectedText) a w
     = Some (fs, (select_object selectedKey selectedText a)\<lparr>cachedLookupFields := Some fs\<rparr>, w')
   \<and> currentCoKey ((select_object selectedKey selectedText a)\<lparr>cachedLookupFields := Some fs\<rparr>)
       = JStr selectedKey
   \<and> (\<forall>w2. getLookupFieldsForCurrentCo
               ((select_object selectedKey selectedText a)\<lparr>cachedLookupFields := Some fs\<rparr>) w2
             = Some (fs, (select_object selectedKey selectedText a)\<lparr>cachedLookupFields := Some fs\<rparr>,
                     w2))"
  by (simp add: getLookupFieldsForCurrentCo_interleaved_def getLookupFieldsForCurrentCo_def
        select_object_def)

theorem scan_in_flight_outlives_selection_witness:
  "getLookupFieldsForCurrentCo_interleaved (select_object ''garage'' ''Garages'')
     \<lparr>currentCoKey = JStr ''car'', currentCoTitle = JStr ''Cars'', currentSchema = JArr [],
      cachedLookupFields = None, activeView = FormView, loaderText = [], tableRecords = []\<rparr>
     \<lparr>pending =
        [Some (JObj [(''ticket_fields'',
           JArr [JObj [(''id'', JNum 5), (''title'', JStr ''Car''), (''type'', JStr ''lookup''),
                       (''relationship_target_type'', JStr ''zen:custom_object:car'')]])]),
         None, None, None],
      sent = []\<rparr>
   = Some ([JObj [(''id'', JNum 5), (''title'', JStr ''Car''), (''type'', JStr ''zen:ticket''),
                  (''label'', JStr ''Tickets'')]],
           \<lparr>currentCoKey = JStr ''garage'', currentCoTitle = JStr ''Garages'',
            currentSchema = JArr [],
            cachedLookupFields =
              Some [JObj [(''id'', JNum 5), (''title'', JStr ''Car''), (''type'', JStr ''zen:ticket''),
                          (''label'', JStr ''Tickets'')]],
            activeView = FormView, loaderText = [], tableRecords = []\<rparr>,
           \<lparr>pending = [],
            sent = [JStr ''/api/v2/ticket_fields.json'', JStr ''/api/v2/user_fields.json'',
                    JStr ''/api/v2/organization_fields.json'', JStr ''/api/v2/custom_objects.json'']\<rparr>)"
proof -
  let ?a = "\<lparr>currentCoKey = JStr ''car'', currentCoTitle = JStr ''Cars'', currentSchema = JArr [],
      cachedLookupFields = None, activeView = FormView, loaderText = [], tableRecords = []\<rparr>"
  let ?w = "\<lparr>pending =
        [Some (JObj [(''ticket_fields'',
           JArr [JObj [(''id'', JNum 5), (''title'', JStr ''Car''), (''type'', JStr ''lookup''),
                       (''relationship_target_type'', JStr ''zen:custom_object:car'')]])]),
         None, None, None],
      sent = []\<rparr>"
  let ?fs = "[JObj [(''id'', JNum 5), (''title'', JStr ''Car''), (''type'', JStr ''zen:ticket''),
                  (''label'', JStr ''Tickets'')]]"
  let ?w' = "\<lparr>pending = [],
            sent = [JStr ''/api/v2/ticket_fields.json'', JStr ''/api/v2/user_fields.json'',
                    JStr ''/api/v2/organization_fields.json'', JStr ''/api/v2/custom_objects.json'']\<rparr>"
  have n: "cachedLookupFields ?a = None" by simp
  have scan: "discovery_scan (''zen:custom_object:'' @ js_to_string (currentCoKey ?a)) ?w
      = Some (?fs, ?w')"
    by (simp add: discovery_scan_def scan_category_def fetchAllPages_def fetchAllPages_loop.simps
          client_request_def page_items_def next_endpoint_def lookup_match_def standard_entry_def)
  from scan_in_flight_outlives_selection [of ?a ?w ?fs ?w' "''garage''" "''Garages''"] n scan
  have "getLookupFieldsForCurrentCo_interleaved (select_object ''garage'' ''Garages'') ?a ?w
     = Some (?fs, (select_object ''garage'' ''Garages'' ?a)\<lparr>cachedLookupFields := Some ?fs\<rparr>, ?w')"
    by blast
  then show ?thesis by (simp add: select_object_def)
qed

section \<open>Properties of the lookup search and of record names\<close>

lemma search_results_entries:
  assumes "e \<in> set (search_results dataKey labelField response)"
  shows "\<exists>rawRecords r.
           js_get response dataKey = JArr rawRecords \<and> r \<in> set rawRecords
           \<and> e = lookup_entry labelField r \<and> lookup_visible r"
proof (cases "js_or (js_get response dataKey) (JArr [])")
  case (JArr rawRecords)
  with assms have e: "e \<in> set (map (lookup_entry labelField) (filter lookup_visible rawRecords))"
    by (simp add: search_results_def split: if_splits)
  then have "rawRecords \<noteq> []" by auto
  with JArr have "js_get response dataKey = JArr rawRecords"
    by (auto simp: js_or_def split: if_splits)
  with e show ?thesis by auto
qed (use assms in \<open>simp_all add: search_results_def split: if_splits\<close>)

lemma lookup_visible_iff:
  "lookup_visible record \<longleftrightarrow>
     js_get record ''suspended'' \<noteq> JBool True \<and> js_get record ''active'' \<noteq> JBool False
     \<and> (truthy (js_get record ''custom_object_fields'') \<longrightarrow>
          js_get (js_get record ''custom_object_fields'') ''active'' \<noteq> JBool False)"
  by (auto simp: lookup_visible_def)

text \<open>
  Claim C9. Every entry that \<open>searchLookupData\<close> returns is built from a record of the
  response that is not suspended (\<open>suspended\<close> is not \<open>true\<close>), not inactive (\<open>active\<close> is
  not \<open>false\<close>) and whose \<open>custom_object_fields\<close>, when present, do not have \<open>active\<close>
  \<open>false\<close>. When the request is rejected the function returns the empty list, and it
  returns whenever the request is answered at all.
\<close>

theorem searchLookupData_hides_suspended_and_inactive:
  "(\<forall>results w' e. searchLookupData targetType query w = Some (results, w') \<and> e \<in> set results \<longrightarrow>
      (\<exists>endpoint dataKey labelField response rawRecords record.
         search_route targetType query = Some (endpoint, dataKey, labelField)
         \<and> pending w = Some response # pending w'
         \<and> js_get response dataKey = JArr rawRecords \<and> record \<in> set rawRecords
         \<and> e = lookup_entry labelField record
         \<and> js_get record ''suspended'' \<noteq> JBool True
         \<and> js_get record ''active'' \<noteq> JBool False
         \<and> (truthy (js_get record ''custom_object_fields'') \<longrightarrow>
              js_get (js_get record ''custom_object_fields'') ''active'' \<noteq> JBool False)))
   \<and> (\<forall>rest. pending w = None # rest \<longrightarrow>
         (\<exists>w'. searchLookupData targetType query w = Some ([], w')))
   \<and> (pending w \<noteq> [] \<longrightarrow> (\<exists>results w'. searchLookupData targetType query w = Some (results, w')))"
proof (intro conjI allI impI)
  fix results w' e
  assume h: "searchLookupData targetType query w = Some (results, w') \<and> e \<in> set results"
  then obtain endpoint dataKey labelField response where
    route: "search_route targetType query = Some (endpoint, dataKey, labelField)"
    and req: "client_request (JStr endpoint) w = Some (Some response, w')"
    and res: "results = search_results dataKey labelField response"
    by (auto simp: searchLookupData_def split: option.splits prod.splits)
  from req have p: "pending w = Some response # pending w'" by (simp add: client_request_Some)
  from h res have "e \<in> set (search_results dataKey labelField response)" by simp
  from search_results_entries [OF this] obtain rawRecords r where
    "js_get response dataKey = JArr rawRecords" "r \<in> set rawRecords"
    "e = lookup_entry labelField r" "lookup_visible r" by blast
  with route p show "\<exists>endpoint dataKey labelField response rawRecords record.
         search_route targetType query = Some (endpoint, dataKey, labelField)
         \<and> pending w = Some response # pending w'
         \<and> js_get response dataKey = JArr rawRecords \<and> record \<in> set rawRecords
         \<and> e = lookup_entry labelField record
         \<and> js_get record ''suspended'' \<noteq> JBool True
         \<and> js_get record ''active'' \<noteq> JBool False
         \<and> (truthy (js_get record ''custom_object_fields'') \<longrightarrow>
              js_get (js_get record ''custom_object_fields'') ''active'' \<noteq> JBool False)"
    unfolding lookup_visible_iff by blast
next
  fix rest
  assume "pending w = None # rest"
  then show "\<exists>w'. searchLookupData targetType query w = Some ([], w')"
    by (auto simp: searchLookupData_def client_request_def split: option.splits)
next
  assume "pending w \<noteq> []"
  then show "\<exists>results w'. searchLookupData targetType query w = Some (results, w')"
    by (auto simp: searchLookupData_def client_request_def split: option.splits list.splits)
qed


theorem searchLookupData_hides_suspended_and_inactive_witness:
  "searchLookupData ''zen:user'' ''an na''
     \<lparr>pending = [Some (JObj [(''users'',
        JArr [JObj [(''id'', JNum 1), (''name'', JStr ''Anna'')],
              JObj [(''id'', JNum 2), (''name'', JStr ''Hanna''), (''suspended'', JBool True)],
              JObj [(''id'', JNum 3), (''name'', JStr ''Joanna''), (''active'', JBool False)],
              JObj [(''id'', JNum 4), (''custom_object_fields'', JObj [(''active'', JBool False)])],
              JObj [(''id'', JNum 6)]])])], sent = []\<rparr>
   = Some ([JObj [(''id'', JNum 1), (''label'', JStr ''Anna'')],
            JObj [(''id'', JNum 6), (''label'', JStr ''Record 6'')]],
           \<lparr>pending = [], sent = [JStr ''/api/v2/users/autocomplete.json?name=an%20na'']\<rparr>)
   \<and> JObj [(''id'', JNum 1), (''label'', JStr ''Anna'')]
        \<in> set [JObj [(''id'', JNum 1), (''label'', JStr ''Anna'')],
                JObj [(''id'', JNum 6), (''label'', JStr ''Record 6'')]]
   \<and> searchLookupData ''zen:ticket'' ''printer'' \<lparr>pending = [None], sent = []\<rparr>
     = Some ([], \<lparr>pending = [],
                  sent = [JStr ''/api/v2/search.json?query=type:ticket printer'']\<rparr>)"
proof -
  let ?w = "\<lparr>pending = [Some (JObj [(''users'',
        JArr [JObj [(''id'', JNum 1), (''name'', JStr ''Anna'')],
              JObj [(''id'', JNum 2), (''name'', JStr ''Hanna''), (''suspended'', JBool True)],
              JObj [(''id'', JNum 3), (''name'', JStr ''Joanna''), (''active'', JBool False)],
              JObj [(''id'', JNum 4), (''custom_object_fields'', JObj [(''active'', JBool False)])],
              JObj [(''id'', JNum 6)]])])], sent = []\<rparr>"
  let ?f = "\<lparr>pending = [None], sent = []\<rparr>"
  have run: "searchLookupData ''zen:user'' ''an na'' ?w
     = Some ([JObj [(''id'', JNum 1), (''label'', JStr ''Anna'')],
            JObj [(''id'', JNum 6), (''label'', JStr ''Record 6'')]],
           \<lparr>pending = [], sent = [JStr ''/api/v2/users/autocomplete.json?name=an%20na'']\<rparr>)"
    by (simp add: searchLookupData_def search_route_def js_startsWith_def encodeURIComponent_def
          uri_unreserved_def hex_digit_def client_request_def search_results_def js_or_def
          lookup_visible_def lookup_entry_def record_label_def show_int_def)
  have p: "pending ?f = None # []" by simp
  from searchLookupData_hides_suspended_and_inactive [of "''zen:ticket''" "''printer''" ?f] p
  obtain w' where "searchLookupData ''zen:ticket'' ''printer'' ?f = Some ([], w')" by blast
  then have failed: "searchLookupData ''zen:ticket'' ''printer'' ?f
     = Some ([], \<lparr>pending = [], sent = [JStr ''/api/v2/search.json?query=type:ticket printer'']\<rparr>)"
    by (simp add: searchLookupData_def search_route_def js_startsWith_def encodeURIComponent_def
          uri_unreserved_def client_request_def)
  from run failed show ?thesis by simp
qed


lemma fallback_name_truthy: "truthy (fallback_name ident)"
  by (simp add: fallback_name_def)









section \<open>Properties of the migration and rollback engine\<close>

subsection \<open>Request Executor\<close>

lemma execute_absorbs_rate_limits:
  "execute default_wait budget req (map RateLimited advices @ rest) trace
     = execute default_wait budget req rest
         (trace @ rate_limit_effects default_wait req advices)"
proof (induction advices arbitrary: trace)
  case Nil
  show ?case by (simp add: rate_limit_effects_def)
next
  case (Cons advised advices)
  show ?case
    using Cons.IH [of "trace @ [Submit req, Pause (wait_duration default_wait advised)]"]
    by (simp add: rate_limit_effects_def)
qed

text \<open>
  Claim C6. Whatever run of rate-limit responses a request receives, the executor
  absorbs it: for each of them it submits the same request again after pausing for the
  advised duration, or for the default when none was advised, and it goes on with the
  retry budget it had. The caller gets what the first other answer gives, a 2xx body
  for instance, as if the rate-limit responses had not been there.
\<close>

theorem rate_limits_are_absorbed:
  "execute default_wait budget req (map RateLimited advices @ rest) trace
     = execute default_wait budget req rest
         (trace @ rate_limit_effects default_wait req advices)
   \<and> execute default_wait budget req (map RateLimited advices @ Success body # rest) trace
     = Some (Inr body, rest,
             trace @ rate_limit_effects default_wait req advices @ [Submit req])"
  by (simp add: execute_absorbs_rate_limits)

subsection \<open>Dependency ordering\<close>

lemma run_entries_append:
  "run_entries exec now (es @ es') st = run_entries exec now es' (run_entries exec now es st)"
proof (induction exec now es st rule: run_entries.induct)
  case (1 exec now st)
  show ?case by simp
next
  case (2 exec now f es st)
  then show ?case
    by (cases "exec (length (submitted st)) (CreateField f)") (simp_all add: Let_def)
next
  case (3 exec now g es st)
  show ?case
  proof (cases "form_payload (identifier_map st) g")
    case (Inl e)
    with 3(1) show ?thesis by simp
  next
    case (Inr p)
    with 3(2,3) show ?thesis
      by (cases "exec (length (submitted st)) p") (simp_all add: Let_def)
  qed
qed

lemma order_plan_nth:
  "i < length (order_plan fs gs) \<Longrightarrow>
   order_plan fs gs ! i
     = (if i < length fs then FieldEntry (fs ! i) else FormEntry (gs ! (i - length fs)))"
  by (simp add: order_plan_def nth_append)

lemma fields_phase:
  "submitted (run_entries exec now (map FieldEntry fs) st) = submitted st @ map CreateField fs
   \<and> set (rollback_log st) \<subseteq> set (rollback_log (run_entries exec now (map FieldEntry fs) st))
   \<and> (\<forall>s t. identifier_map (run_entries exec now (map FieldEntry fs) st) s = Some t \<longrightarrow>
          identifier_map st s = Some t
          \<or> (\<exists>f \<in> set fs. \<exists>e \<in> set (rollback_log (run_entries exec now (map FieldEntry fs) st)).
                field_source_id f = s \<and> target_id e = t
                \<and> entity_kind e = FieldEntity (field_category f)))"
proof (induction fs arbitrary: st)
  case Nil
  show ?case by simp
next
  case (Cons f fs)
  let ?k = "length (submitted st)"
  show ?case
  proof (cases "exec ?k (CreateField f)")
    case Refused
    let ?st1 = "st\<lparr>submitted := submitted st @ [CreateField f],
                    skipped := skipped st @ [(FieldEntry f, PermanentError)]\<rparr>"
    from Refused have step: "run_entries exec now (map FieldEntry (f # fs)) st
        = run_entries exec now (map FieldEntry fs) ?st1" by (simp add: Let_def)
    from Cons.IH [of ?st1] show ?thesis unfolding step by auto
  next
    case (Created t)
    let ?e = "\<lparr>sequence_no = Suc (length (rollback_log st)),
                entity_kind = FieldEntity (field_category f), target_id = t, created_at = now ?k\<rparr>"
    let ?st1 = "st\<lparr>identifier_map := (identifier_map st)(field_source_id f \<mapsto> t),
                    rollback_log := append_log (FieldEntity (field_category f)) t (now ?k) (rollback_log st),
                    submitted := submitted st @ [CreateField f]\<rparr>"
    from Created have step: "run_entries exec now (map FieldEntry (f # fs)) st
        = run_entries exec now (map FieldEntry fs) ?st1" by (simp add: Let_def)
    have log1: "rollback_log ?st1 = rollback_log st @ [?e]" by (simp add: append_log_def)
    note ih = Cons.IH [of ?st1]
    from ih have sub: "submitted (run_entries exec now (map FieldEntry fs) ?st1)
        = submitted st @ map CreateField (f # fs)" by simp
    from ih log1 have mono: "set (rollback_log st) \<subseteq> set (rollback_log (run_entries exec now (map FieldEntry fs) ?st1))"
      and e: "?e \<in> set (rollback_log (run_entries exec now (map FieldEntry fs) ?st1))"
      by auto
    have maps: "identifier_map st s = Some u
          \<or> (\<exists>f' \<in> set (f # fs). \<exists>e \<in> set (rollback_log (run_entries exec now (map FieldEntry fs) ?st1)).
                field_source_id f' = s \<and> target_id e = u
                \<and> entity_kind e = FieldEntity (field_category f'))"
      if m: "identifier_map (run_entries exec now (map FieldEntry fs) ?st1) s = Some u" for s u
    proof -
      from ih m have "identifier_map ?st1 s = Some u
          \<or> (\<exists>f' \<in> set fs. \<exists>e \<in> set (rollback_log (run_entries exec now (map FieldEntry fs) ?st1)).
                field_source_id f' = s \<and> target_id e = u
                \<and> entity_kind e = FieldEntity (field_category f'))" by blast
      then show ?thesis
      proof
        assume a: "identifier_map ?st1 s = Some u"
        show ?thesis
        proof (cases "s = field_source_id f")
          case True
          with a have "u = t" by simp
          with True e show ?thesis by (intro disjI2 bexI [of _ f] bexI [of _ ?e]) simp_all
        next
          case False
          with a show ?thesis by simp
        qed
      next
        assume "\<exists>f' \<in> set fs. \<exists>e \<in> set (rollback_log (run_entries exec now (map FieldEntry fs) ?st1)).
                field_source_id f' = s \<and> target_id e = u
                \<and> entity_kind e = FieldEntity (field_category f')"
        then show ?thesis by auto
      qed
    qed
    from sub mono maps show ?thesis unfolding step by blast
  qed
qed

lemma forms_phase:
  "identifier_map (run_entries exec now (map FormEntry gs) st) = identifier_map st
   \<and> set (rollback_log st) \<subseteq> set (rollback_log (run_entries exec now (map FormEntry gs) st))
   \<and> (\<forall>p \<in> set (submitted (run_entries exec now (map FormEntry gs) st)).
          p \<in> set (submitted st)
          \<or> (\<exists>g \<in> set gs. form_payload (identifier_map st) g = Inr p))"
proof (induction gs arbitrary: st)
  case Nil
  show ?case by simp
next
  case (Cons g gs)
  show ?case
  proof (cases "form_payload (identifier_map st) g")
    case (Inl e)
    let ?st1 = "st\<lparr>skipped := skipped st @ [(FormEntry g, e)]\<rparr>"
    from Inl have step: "run_entries exec now (map FormEntry (g # gs)) st
        = run_entries exec now (map FormEntry gs) ?st1" by simp
    from Cons.IH [of ?st1] show ?thesis unfolding step by auto
  next
    case (Inr p)
    let ?k = "length (submitted st)"
    show ?thesis
    proof (cases "exec ?k p")
      case (Created t)
      let ?st1 = "st\<lparr>rollback_log := append_log FormEntity t (now ?k) (rollback_log st),
                      submitted := submitted st @ [p]\<rparr>"
      from Inr Created have step: "run_entries exec now (map FormEntry (g # gs)) st
          = run_entries exec now (map FormEntry gs) ?st1" by (simp add: Let_def)
      from Cons.IH [of ?st1] Inr show ?thesis unfolding step
        by (auto simp: append_log_def)
    next
      case Refused
      let ?st1 = "st\<lparr>submitted := submitted st @ [p],
                      skipped := skipped st @ [(FormEntry g, PermanentError)]\<rparr>"
      from Inr Refused have step: "run_entries exec now (map FormEntry (g # gs)) st
          = run_entries exec now (map FormEntry gs) ?st1" by (simp add: Let_def)
      from Cons.IH [of ?st1] Inr show ?thesis unfolding step by auto
    qed
  qed
qed

lemma resolve_refs_defined:
  "resolve_refs m refs = Some ts \<Longrightarrow> s \<in> set refs \<Longrightarrow> \<exists>t. m s = Some t"
  by (induction refs arbitrary: ts) (auto split: option.splits)

lemma form_payload_Inr:
  "form_payload m g = Inr p \<Longrightarrow>
   \<exists>layout rules. p = CreateForm g layout rules
      \<and> resolve_refs m (form_fields g) = Some layout
      \<and> resolve_refs m (form_rule_fields g) = Some rules"
  by (auto simp: form_payload_def split: option.splits)

text \<open>
  Claim C3. In the plan that the Dependency Resolver orders, every field entry precedes
  every form entry, whatever the field's category, so a form's entry comes strictly
  after the entry of every field it references. And every form payload that a run of
  this plan submits belongs to a form of the plan and carries its references resolved
  through the IdentifierMap: each field the form references is a field of the plan that
  the run created and logged, and the map sends its source id to the target id of that
  log entry.
\<close>

theorem forms_are_created_after_their_fields:
  "(\<forall>i j f g. i < length (order_plan missingFields missingForms)
        \<and> j < length (order_plan missingFields missingForms)
        \<and> order_plan missingFields missingForms ! i = FieldEntry f
        \<and> order_plan missingFields missingForms ! j = FormEntry g \<longrightarrow> i < j)
   \<and> (\<forall>i j f g. i < length (order_plan missingFields missingForms)
        \<and> j < length (order_plan missingFields missingForms)
        \<and> order_plan missingFields missingForms ! i = FieldEntry f
        \<and> order_plan missingFields missingForms ! j = FormEntry g
        \<and> field_source_id f \<in> form_references g \<longrightarrow> i < j)
   \<and> (\<forall>g layout rules.
        CreateForm g layout rules
          \<in> set (submitted (run exec now (order_plan missingFields missingForms))) \<longrightarrow>
        g \<in> set missingForms
        \<and> resolve_refs (identifier_map (run exec now (order_plan missingFields missingForms)))
             (form_fields g) = Some layout
        \<and> resolve_refs (identifier_map (run exec now (order_plan missingFields missingForms)))
             (form_rule_fields g) = Some rules
        \<and> (\<forall>s \<in> form_references g.
              \<exists>f \<in> set missingFields.
              \<exists>e \<in> set (rollback_log (run exec now (order_plan missingFields missingForms))).
                field_source_id f = s
                \<and> identifier_map (run exec now (order_plan missingFields missingForms)) s
                    = Some (target_id e)
                \<and> entity_kind e = FieldEntity (field_category f)))"
proof -
  let ?plan = "order_plan missingFields missingForms"
  let ?init = "\<lparr>identifier_map = Map.empty, rollback_log = [], submitted = [], skipped = []\<rparr>"
  let ?st1 = "run_entries exec now (map FieldEntry missingFields) ?init"
  let ?final = "run exec now ?plan"
  have order: "i < j"
    if "i < length ?plan" "j < length ?plan" "?plan ! i = FieldEntry f" "?plan ! j = FormEntry g"
    for i j f g
  proof -
    from that(1,3) have "i < length missingFields"
      by (simp add: order_plan_nth split: if_splits)
    moreover from that(2,4) have "\<not> j < length missingFields"
      by (simp add: order_plan_nth split: if_splits)
    ultimately show ?thesis by simp
  qed
  have final: "?final = run_entries exec now (map FormEntry missingForms) ?st1"
    by (simp add: run_def order_plan_def run_entries_append)
  note a = fields_phase [of exec now missingFields ?init]
  note b = forms_phase [of exec now missingForms ?st1]
  from b have idm: "identifier_map ?final = identifier_map ?st1" unfolding final by simp
  from b have logs: "set (rollback_log ?st1) \<subseteq> set (rollback_log ?final)" unfolding final by simp
  have forms: "g \<in> set missingForms
        \<and> resolve_refs (identifier_map ?final) (form_fields g) = Some layout
        \<and> resolve_refs (identifier_map ?final) (form_rule_fields g) = Some rules
        \<and> (\<forall>s \<in> form_references g.
              \<exists>f \<in> set missingFields. \<exists>e \<in> set (rollback_log ?final).
                field_source_id f = s \<and> identifier_map ?final s = Some (target_id e)
                \<and> entity_kind e = FieldEntity (field_category f))"
    if sub: "CreateForm g layout rules \<in> set (submitted ?final)" for g layout rules
  proof -
    from a have "CreateForm g layout rules \<notin> set (submitted ?st1)" by auto
    with b sub obtain g' where g': "g' \<in> set missingForms"
      and p: "form_payload (identifier_map ?st1) g' = Inr (CreateForm g layout rules)"
      unfolding final by blast
    from form_payload_Inr [OF p] have eq: "g' = g"
      and l: "resolve_refs (identifier_map ?st1) (form_fields g) = Some layout"
      and r: "resolve_refs (identifier_map ?st1) (form_rule_fields g) = Some rules"
      by auto
    have refs: "\<exists>f \<in> set missingFields. \<exists>e \<in> set (rollback_log ?final).
                field_source_id f = s \<and> identifier_map ?final s = Some (target_id e)
                \<and> entity_kind e = FieldEntity (field_category f)"
      if s: "s \<in> form_references g" for s
    proof -
      from s l r obtain t where t: "identifier_map ?st1 s = Some t"
        unfolding form_references_def by (auto dest: resolve_refs_defined)
      with a obtain f e where "f \<in> set missingFields" "e \<in> set (rollback_log ?st1)"
        "field_source_id f = s" "target_id e = t" "entity_kind e = FieldEntity (field_category f)"
        by fastforce
      with t logs idm show ?thesis by auto
    qed
    from g' eq l r refs show ?thesis unfolding idm by blast
  qed
  from order forms show ?thesis by blast
qed


theorem forms_are_created_after_their_fields_witness:
  "order_plan
     [\<lparr>field_source_id = SourceId 77, field_target_id = None, field_category = TicketField,
       field_key = ''priority_lvl'', field_title = ''Priority level'', field_kind = DropdownType,
       field_required = False, field_options = []\<rparr>]
     [\<lparr>form_source_id = SourceId 9, form_target_id = None, form_name = ''Main Form'',
       form_fields = [SourceId 77], form_rule_fields = []\<rparr>]
   = [FieldEntry \<lparr>field_source_id = SourceId 77, field_target_id = None, field_category = TicketField,
       field_key = ''priority_lvl'', field_title = ''Priority level'', field_kind = DropdownType,
       field_required = False, field_options = []\<rparr>,
      FormEntry \<lparr>form_source_id = SourceId 9, form_target_id = None, form_name = ''Main Form'',
       form_fields = [SourceId 77], form_rule_fields = []\<rparr>]
   \<and> submitted (run (\<lambda>k p. Created (TargetId (501 + k))) (\<lambda>k. 10 + k)
        (order_plan
          [\<lparr>field_source_id = SourceId 77, field_target_id = None, field_category = TicketField,
            field_key = ''priority_lvl'', field_title = ''Priority level'', field_kind = DropdownType,
            field_required = False, field_options = []\<rparr>]
          [\<lparr>form_source_id = SourceId 9, form_target_id = None, form_name = ''Main Form'',
            form_fields = [SourceId 77], form_rule_fields = []\<rparr>]))
     = [CreateField \<lparr>field_source_id = SourceId 77, field_target_id = None, field_category = TicketField,
            field_key = ''priority_lvl'', field_title = ''Priority level'', field_kind = DropdownType,
            field_required = False, field_options = []\<rparr>,
        CreateForm \<lparr>form_source_id = SourceId 9, form_target_id = None, form_name = ''Main Form'',
            form_fields = [SourceId 77], form_rule_fields = []\<rparr> [TargetId 501] []]
   \<and> rollback_log (run (\<lambda>k p. Created (TargetId (501 + k))) (\<lambda>k. 10 + k)
        (order_plan
          [\<lparr>field_source_id = SourceId 77, field_target_id = None, field_category = TicketField,
            field_key = ''priority_lvl'', field_title = ''Priority level'', field_kind = DropdownType,
            field_required = False, field_options = []\<rparr>]
          [\<lparr>form_source_id = SourceId 9, form_target_id = None, form_name = ''Main Form'',
            form_fields = [SourceId 77], form_rule_fields = []\<rparr>]))
     = [\<lparr>sequence_no = 1, entity_kind = FieldEntity TicketField, target_id = TargetId 501,
         created_at = 10\<rparr>,
        \<lparr>sequence_no = 2, entity_kind = FormEntity, target_id = TargetId 502, created_at = 11\<rparr>]
   \<and> resolve_refs
        (identifier_map (run (\<lambda>k p. Created (TargetId (501 + k))) (\<lambda>k. 10 + k)
          (order_plan
            [\<lparr>field_source_id = SourceId 77, field_target_id = None, field_category = TicketField,
              field_key = ''priority_lvl'', field_title = ''Priority level'', field_kind = DropdownType,
              field_required = False, field_options = []\<rparr>]
            [\<lparr>form_source_id = SourceId 9, form_target_id = None, form_name = ''Main Form'',
              form_fields = [SourceId 77], form_rule_fields = []\<rparr>])))
        [SourceId 77]
     = Some [TargetId 501]"
proof -
  let ?f = "\<lparr>field_source_id = SourceId 77, field_target_id = None, field_category = TicketField,
       field_key = ''priority_lvl'', field_title = ''Priority level'', field_kind = DropdownType,
       field_required = False, field_options = []\<rparr>"
  let ?g = "\<lparr>form_source_id = SourceId 9, form_target_id = None, form_name = ''Main Form'',
       form_fields = [SourceId 77], form_rule_fields = []\<rparr>"
  let ?exec = "\<lambda>k p. Created (TargetId (501 + k))"
  let ?now = "\<lambda>k. 10 + k"
  have plan: "order_plan [?f] [?g] = [FieldEntry ?f, FormEntry ?g]" by (simp add: order_plan_def)
  have sub: "submitted (run ?exec ?now (order_plan [?f] [?g]))
      = [CreateField ?f, CreateForm ?g [TargetId 501] []]"
    by (simp add: plan run_def form_payload_def append_log_def)
  have log: "rollback_log (run ?exec ?now (order_plan [?f] [?g]))
      = [\<lparr>sequence_no = 1, entity_kind = FieldEntity TicketField, target_id = TargetId 501,
           created_at = 10\<rparr>,
         \<lparr>sequence_no = 2, entity_kind = FormEntity, target_id = TargetId 502, created_at = 11\<rparr>]"
    by (simp add: plan run_def form_payload_def append_log_def)
  from sub have "CreateForm ?g [TargetId 501] [] \<in> set (submitted (run ?exec ?now (order_plan [?f] [?g])))"
    by simp
  with forms_are_created_after_their_fields [of "[?f]" "[?g]" ?exec ?now]
  have "resolve_refs (identifier_map (run ?exec ?now (order_plan [?f] [?g]))) (form_fields ?g)
          = Some [TargetId 501]" by blast
  with plan sub log show ?thesis by simp
qed

subsection \<open>Rollback order\<close>

lemma delete_entries_issued:
  "fst (delete_entries del es issued failed) = issued @ es"
  by (induction es arbitrary: issued failed) (auto split: delete_reply.splits)

lemma descending_sequence:
  assumes "mset (map sequence_no log) = mset [1..<Suc N]"
  shows "map sequence_no (rev (sort_key sequence_no log)) = rev [1..<Suc N]"
proof -
  have "sorted (map sequence_no (sort_key sequence_no log))" by (rule sorted_sort_key)
  moreover have "mset (map sequence_no (sort_key sequence_no log)) = mset [1..<Suc N]"
    using assms by (simp del: upt_Suc)
  ultimately have "sort [1..<Suc N] = map sequence_no (sort_key sequence_no log)"
    by (intro properties_for_sort) (simp_all del: upt_Suc)
  then have "map sequence_no (sort_key sequence_no log) = [1..<Suc N]"
    unfolding sort_upt by (rule sym)
  then show ?thesis by (simp only: rev_map [symmetric])
qed

lemma append_log_numbers:
  "map sequence_no log = [1..<Suc (length log)] \<Longrightarrow>
   map sequence_no (append_log kind t time log) = [1..<Suc (length (append_log kind t time log))]"
  by (simp add: append_log_def)

lemma run_entries_numbers:
  "map sequence_no (rollback_log st) = [1..<Suc (length (rollback_log st))] \<Longrightarrow>
   map sequence_no (rollback_log (run_entries exec now es st))
     = [1..<Suc (length (rollback_log (run_entries exec now es st)))]"
proof (induction exec now es st rule: run_entries.induct)
  case (1 exec now st)
  then show ?case by simp
next
  case (2 exec now f es st)
  show ?case
  proof (cases "exec (length (submitted st)) (CreateField f)")
    case (Created t)
    with 2(1) [OF refl Created] 2(3) show ?thesis
      by (simp add: Let_def append_log_numbers)
  next
    case Refused
    with 2(2) [OF refl Refused] 2(3) show ?thesis by (simp add: Let_def)
  qed
next
  case (3 exec now g es st)
  show ?case
  proof (cases "form_payload (identifier_map st) g")
    case (Inl e)
    with 3(1) [OF Inl] 3(4) show ?thesis by simp
  next
    case (Inr p)
    show ?thesis
    proof (cases "exec (length (submitted st)) p")
      case (Created t)
      with 3(2) [OF Inr refl Created] 3(4) Inr show ?thesis
        by (simp add: Let_def append_log_numbers)
    next
      case Refused
      with 3(3) [OF Inr refl Refused] 3(4) Inr show ?thesis by (simp add: Let_def)
    qed
  qed
qed

lemma run_numbers:
  "map sequence_no (rollback_log (run exec now plan))
     = [1..<Suc (length (rollback_log (run exec now plan)))]"
  unfolding run_def by (rule run_entries_numbers) simp

text \<open>
  Claim C4. Given the confirmation token, the Rollback Engine issues one delete for
  every entry of the log and for nothing else, in the order of the log sorted by
  sequence number and reversed, whatever the answers to the deletes. For a log that
  holds the sequence numbers 1 to N, in whatever order it is read, the deletes so go
  N, N-1, ..., 1. The log that a run of the Migration Executor writes is such a log, and
  its entries are deleted last written first.
\<close>

theorem rollback_is_lifo:
  "deletes_issued (rollback confirmation_token del log) = rev (sort_key sequence_no log)
   \<and> mset (deletes_issued (rollback confirmation_token del log)) = mset log
   \<and> (mset (map sequence_no log) = mset [1..<Suc N] \<longrightarrow>
        map sequence_no (deletes_issued (rollback confirmation_token del log)) = rev [1..<Suc N])
   \<and> deletes_issued (rollback confirmation_token del (rollback_log (run exec now plan)))
       = rev (rollback_log (run exec now plan))
   \<and> map sequence_no
         (deletes_issued (rollback confirmation_token del (rollback_log (run exec now plan))))
       = rev [1..<Suc (length (rollback_log (run exec now plan)))]"
proof -
  have issued: "deletes_issued (rollback confirmation_token del l) = rev (sort_key sequence_no l)" for l
    using delete_entries_issued [of del "rev (sort_key sequence_no l)" "[]" "[]"]
    by (cases "delete_entries del (rev (sort_key sequence_no l)) [] []") (simp add: rollback_def)
  have all: "mset (deletes_issued (rollback confirmation_token del log)) = mset log"
    by (simp add: issued)
  have a: "map sequence_no (deletes_issued (rollback confirmation_token del l)) = rev [1..<Suc n]"
    if "mset (map sequence_no l) = mset [1..<Suc n]" for l n
    using descending_sequence [OF that] by (simp only: issued)
  let ?log = "rollback_log (run exec now plan)"
  have "sorted (map sequence_no ?log)" by (simp only: run_numbers sorted_upt)
  then have same: "sort_key sequence_no ?log = ?log" by (rule sort_key_id_if_sorted)
  have run: "deletes_issued (rollback confirmation_token del ?log) = rev ?log"
    by (simp only: issued same)
  have "mset (map sequence_no ?log) = mset [1..<Suc (length ?log)]"
    by (simp only: run_numbers)
  from a [OF this] a issued all run show ?thesis by blast
qed

theorem rollback_is_lifo_witness:
  "mset (map sequence_no
      [\<lparr>sequence_no = 2, entity_kind = FieldEntity UserField, target_id = TargetId 502, created_at = 11\<rparr>,
       \<lparr>sequence_no = 3, entity_kind = FormEntity, target_id = TargetId 900, created_at = 12\<rparr>,
       \<lparr>sequence_no = 1, entity_kind = FieldEntity TicketField, target_id = TargetId 501, created_at = 10\<rparr>])
     = mset [1..<Suc 3]
   \<and> map sequence_no (deletes_issued (rollback confirmation_token (\<lambda>k e. NotFound)
      [\<lparr>sequence_no = 2, entity_kind = FieldEntity UserField, target_id = TargetId 502, created_at = 11\<rparr>,
       \<lparr>sequence_no = 3, entity_kind = FormEntity, target_id = TargetId 900, created_at = 12\<rparr>,
       \<lparr>sequence_no = 1, entity_kind = FieldEntity TicketField, target_id = TargetId 501, created_at = 10\<rparr>]))
     = [3, 2, 1]
   \<and> deletes_issued (rollback confirmation_token (\<lambda>k e. NotFound)
      [\<lparr>sequence_no = 2, entity_kind = FieldEntity UserField, target_id = TargetId 502, created_at = 11\<rparr>,
       \<lparr>sequence_no = 3, entity_kind = FormEntity, target_id = TargetId 900, created_at = 12\<rparr>,
       \<lparr>sequence_no = 1, entity_kind = FieldEntity TicketField, target_id = TargetId 501, created_at = 10\<rparr>])
     = [\<lparr>sequence_no = 3, entity_kind = FormEntity, target_id = TargetId 900, created_at = 12\<rparr>,
        \<lparr>sequence_no = 2, entity_kind = FieldEntity UserField, target_id = TargetId 502, created_at = 11\<rparr>,
        \<lparr>sequence_no = 1, entity_kind = FieldEntity TicketField, target_id = TargetId 501, created_at = 10\<rparr>]"
proof -
  let ?log = "[\<lparr>sequence_no = 2, entity_kind = FieldEntity UserField, target_id = TargetId 502, created_at = 11\<rparr>,
       \<lparr>sequence_no = 3, entity_kind = FormEntity, target_id = TargetId 900, created_at = 12\<rparr>,
       \<lparr>sequence_no = 1, entity_kind = FieldEntity TicketField, target_id = TargetId 501, created_at = 10\<rparr>]"
  have up: "[1..<Suc 3] = [1, 2, 3]" by (simp add: upt_rec)
  have m: "mset (map sequence_no ?log) = mset [1..<Suc 3]" unfolding up by simp
  note inst = rollback_is_lifo [of "\<lambda>k e. NotFound" ?log 3]
  from inst m
  have "map sequence_no (deletes_issued (rollback confirmation_token (\<lambda>k e. NotFound) ?log))
          = rev [1..<Suc 3]" by blast
  moreover from inst
  have "deletes_issued (rollback confirmation_token (\<lambda>k e. NotFound) ?log)
          = rev (sort_key sequence_no ?log)" by blast
  ultimately show ?thesis using m unfolding up by simp
qed

subsection \<open>Plan round trip\<close>

lemma read_option_rows:
  "read_rows (map (option_row (plan_category f)) opts @ rows) (acc @ [f\<lparr>plan_options := os\<rparr>])
     = read_rows rows (acc @ [f\<lparr>plan_options := os @ opts\<rparr>])"
proof (induction opts arbitrary: os)
  case Nil
  show ?case by simp
next
  case (Cons opt opts)
  show ?case
  proof (cases opt)
    case (fields v n p)
    with Cons.IH [of "os @ [opt]"] show ?thesis by (simp add: option_row_def)
  qed
qed

lemma read_field_rows:
  assumes "natural_key f \<notin> set (map natural_key acc)"
  shows "read_rows (field_rows f @ rows) acc = read_rows rows (acc @ [f])"
proof -
  have "read_rows (field_rows f @ rows) acc
          = read_rows (map (option_row (plan_category f)) (plan_options f) @ rows)
              (acc @ [f\<lparr>plan_options := []\<rparr>])"
    using assms by (cases f) (simp add: field_rows_def natural_key_def)
  also have "\<dots> = read_rows rows (acc @ [f\<lparr>plan_options := [] @ plan_options f\<rparr>])"
    by (rule read_option_rows)
  finally show ?thesis by simp
qed

lemma read_written_rows:
  "distinct (map natural_key (acc @ plan)) \<Longrightarrow>
   read_rows (write_plan plan) acc = Inr (acc @ plan)"
proof (induction plan arbitrary: acc)
  case Nil
  show ?case by (simp add: write_plan_def)
next
  case (Cons f plan)
  from Cons.prems have fresh: "natural_key f \<notin> set (map natural_key acc)" by auto
  from Cons.prems have "distinct (map natural_key ((acc @ [f]) @ plan))" by simp
  from Cons.IH [OF this] read_field_rows [OF fresh, of "write_plan plan"]
  show ?case by (simp add: write_plan_def)
qed

text \<open>
  Claim C8. Writing a plan whose fields have no duplicate key within a category and
  reading the rows back gives the plan again: \<open>read(write(plan)) = plan\<close>. A plan in
  memory holds its options under their fields, so it has no dangling option.
\<close>

theorem plan_round_trip:
  "distinct (map natural_key plan) \<Longrightarrow> read_plan (write_plan plan) = Inr plan"
  using read_written_rows [of "[]" plan] by (simp add: read_plan_def)

theorem plan_round_trip_witness:
  "distinct (map natural_key
      [\<lparr>plan_category = TicketField, plan_key = ''priority_lvl'', plan_title = ''Priority level'',
        plan_type = DropdownType, plan_required = True, plan_source_id = SourceId 77,
        plan_target_id = None,
        plan_options = [\<lparr>plan_option_value = ''hi'', plan_option_name = ''High'', plan_option_position = 0\<rparr>,
                        \<lparr>plan_option_value = ''lo'', plan_option_name = ''Low'', plan_option_position = 1\<rparr>]\<rparr>,
       \<lparr>plan_category = UserField, plan_key = ''priority_lvl'', plan_title = ''VIP level'',
        plan_type = IntegerType, plan_required = False, plan_source_id = SourceId 78,
        plan_target_id = Some (TargetId 5), plan_options = []\<rparr>])
   \<and> write_plan
      [\<lparr>plan_category = TicketField, plan_key = ''priority_lvl'', plan_title = ''Priority level'',
        plan_type = DropdownType, plan_required = True, plan_source_id = SourceId 77,
        plan_target_id = None,
        plan_options = [\<lparr>plan_option_value = ''hi'', plan_option_name = ''High'', plan_option_position = 0\<rparr>,
                        \<lparr>plan_option_value = ''lo'', plan_option_name = ''Low'', plan_option_position = 1\<rparr>]\<rparr>,
       \<lparr>plan_category = UserField, plan_key = ''priority_lvl'', plan_title = ''VIP level'',
        plan_type = IntegerType, plan_required = False, plan_source_id = SourceId 78,
        plan_target_id = Some (TargetId 5), plan_options = []\<rparr>]
     = [FieldRow TicketField ''priority_lvl'' ''Priority level'' DropdownType True (SourceId 77) None,
        OptionRow TicketField ''hi'' ''High'' 0,
        OptionRow TicketField ''lo'' ''Low'' 1,
        FieldRow UserField ''priority_lvl'' ''VIP level'' IntegerType False (SourceId 78)
          (Some (TargetId 5))]
   \<and> read_plan
       [FieldRow TicketField ''priority_lvl'' ''Priority level'' DropdownType True (SourceId 77) None,
        OptionRow TicketField ''hi'' ''High'' 0,
        OptionRow TicketField ''lo'' ''Low'' 1,
        FieldRow UserField ''priority_lvl'' ''VIP level'' IntegerType False (SourceId 78)
          (Some (TargetId 5))]
     = Inr
      [\<lparr>plan_category = TicketField, plan_key = ''priority_lvl'', plan_title = ''Priority level'',
        plan_type = DropdownType, plan_required = True, plan_source_id = SourceId 77,
        plan_target_id = None,
        plan_options = [\<lparr>plan_option_value = ''hi'', plan_option_name = ''High'', plan_option_position = 0\<rparr>,
                        \<lparr>plan_option_value = ''lo'', plan_option_name = ''Low'', plan_option_position = 1\<rparr>]\<rparr>,
       \<lparr>plan_category = UserField, plan_key = ''priority_lvl'', plan_title = ''VIP level'',
        plan_type = IntegerType, plan_required = False, plan_source_id = SourceId 78,
        plan_target_id = Some (TargetId 5), plan_options = []\<rparr>]"
proof -
  let ?plan = "[\<lparr>plan_category = TicketField, plan_key = ''priority_lvl'', plan_title = ''Priority level'',
        plan_type = DropdownType, plan_required = True, plan_source_id = SourceId 77,
        plan_target_id = None,
        plan_options = [\<lparr>plan_option_value = ''hi'', plan_option_name = ''High'', plan_option_position = 0\<rparr>,
                        \<lparr>plan_option_value = ''lo'', plan_option_name = ''Low'', plan_option_position = 1\<rparr>]\<rparr>,
       \<lparr>plan_category = UserField, plan_key = ''priority_lvl'', plan_title = ''VIP level'',
        plan_type = IntegerType, plan_required = False, plan_source_id = SourceId 78,
        plan_target_id = Some (TargetId 5), plan_options = []\<rparr>]"
  have d: "distinct (map natural_key ?plan)" by (simp add: natural_key_def)
  have w: "write_plan ?plan
     = [FieldRow TicketField ''priority_lvl'' ''Priority level'' DropdownType True (SourceId 77) None,
        OptionRow TicketField ''hi'' ''High'' 0,
        OptionRow TicketField ''lo'' ''Low'' 1,
        FieldRow UserField ''priority_lvl'' ''VIP level'' IntegerType False (SourceId 78)
          (Some (TargetId 5))]"
    by (simp add: write_plan_def field_rows_def option_row_def)
  from plan_round_trip [OF d] have "read_plan (write_plan ?plan) = Inr ?plan" .
  with d w show ?thesis by simp
qed

end
